theory Spec2Isabelle
  imports Main "HOL-Library.Word"
begin

unbundle bit_operations_syntax

section \<open>Constant decoder of the graph pass (src/graph/spirv\_pass.hpp)\<close>

subsection \<open>Target types and conversions\<close>

text \<open>
  The decoders are templates over a target type \<open>T\<close>. The model covers the fixed-width
  integer instances; a value of type \<open>T\<close> is the mathematical integer it denotes.
  Floating-point instances of \<open>T\<close> are outside the model.
\<close>

datatype ctype = Int8 | Int16 | Int32 | Int64 | UInt8 | UInt16 | UInt32 | UInt64

fun type_bits :: "ctype \<Rightarrow> nat" where
  "type_bits Int8 = 8"
| "type_bits Int16 = 16"
| "type_bits Int32 = 32"
| "type_bits Int64 = 64"
| "type_bits UInt8 = 8"
| "type_bits UInt16 = 16"
| "type_bits UInt32 = 32"
| "type_bits UInt64 = 64"

fun type_signed :: "ctype \<Rightarrow> bool" where
  "type_signed Int8 = True"
| "type_signed Int16 = True"
| "type_signed Int32 = True"
| "type_signed Int64 = True"
| "type_signed UInt8 = False"
| "type_signed UInt16 = False"
| "type_signed UInt32 = False"
| "type_signed UInt64 = False"

text \<open>
  \<open>T(v)\<close> for an integer \<open>v\<close>: the C++ integral conversion, the value of \<open>v\<close> modulo
  \<open>2 ^ bits\<close>, read as two's complement when \<open>T\<close> is signed.
\<close>

definition cast_to :: "ctype \<Rightarrow> int \<Rightarrow> int" where
  "cast_to T v =
     (if type_signed T then signed_take_bit (type_bits T - 1) v
      else take_bit (type_bits T) v)"

text \<open>
  The values a 64-bit object can denote, signed or unsigned; every value of a target
  type lies in this range.
\<close>

definition fits64 :: "int \<Rightarrow> bool" where
  "fits64 v \<longleftrightarrow> - (2 ^ 63) \<le> v \<and> v < 2 ^ 64"

subsection \<open>Constants of the module\<close>

text \<open>
  The types and constants of the optimiser's constant manager, as far as the decoders
  read them. An integer constant carries its type (\<open>width()\<close>, \<open>IsSigned()\<close>) and the
  results of the library accessors \<open>GetSignExtendedValue()\<close> (an \<open>int64_t\<close>) and
  \<open>GetZeroExtendedValue()\<close> (a \<open>uint64_t\<close>). A float constant carries its width, its
  first literal word \<open>words()[0]\<close> and the remaining words. A tensor type carries the
  id of its shape constant (\<open>shape_id()\<close>).
\<close>

datatype spv_type =
    Integer nat bool
  | Float nat
  | Bool
  | TensorARM nat
  | OtherType

datatype spv_constant =
    IntConstant (int_width: nat) (int_signed: bool)
      (SignExtendedValue: "64 word") (ZeroExtendedValue: "64 word")
  | FloatConstant (float_width: nat) (word0: "32 word") (more_words: "32 word list")
  | BoolConstant bool
  | CompositeConstant "spv_constant list"
  | NullConstant spv_type

text \<open>
  The floating-point value a float constant holds, before its conversion to \<open>T\<close>: the
  half read from the low 16 bits of the first word, the result of \<open>GetFloatValue()\<close>,
  or the result of \<open>GetDoubleValue()\<close> (both given by the constant's words). The
  conversion \<open>T(fp)\<close> itself is floating-point arithmetic; it is a parameter
  \<open>float_to_T\<close> of the decoders. Whatever it computes is a value of type \<open>T\<close>,
  which \<open>convert_float\<close> records.
\<close>

datatype fp_value =
    Half "16 word"
  | FloatValue "32 word list"
  | DoubleValue "32 word list"

datatype error =
    UnsupportedIntegerWidth nat
  | UnsupportedFloatWidth nat
  | UnsupportedConstantType
  | AssertionFailed
  | NullDereference
  | OutOfRange
  | MissingTensorInfo

definition convert_float :: "(ctype \<Rightarrow> fp_value \<Rightarrow> int) \<Rightarrow> ctype \<Rightarrow> fp_value \<Rightarrow> int" where
  "convert_float float_to_T T fp = cast_to T (float_to_T T fp)"

subsection \<open>getConstScalar\<close>

text \<open>
  \<open>getConstScalar<T>(constant, isUnsigned)\<close>. Each \<open>throw std::runtime_error\<close> is an
  \<open>Inl\<close> result.
\<close>

fun getConstScalar ::
  "(ctype \<Rightarrow> fp_value \<Rightarrow> int) \<Rightarrow> ctype \<Rightarrow> spv_constant \<Rightarrow> bool \<Rightarrow> error + int" where
  "getConstScalar float_to_T T (IntConstant width is_signed sext zext) isUnsigned =
     (if is_signed then Inr (cast_to T (sint sext))
      else if width = 8 then
        Inr (if isUnsigned then cast_to T (uint zext)
             else cast_to T (sint (ucast zext :: 8 word)))
      else if width = 16 then
        Inr (if isUnsigned then cast_to T (uint zext)
             else cast_to T (sint (ucast zext :: 16 word)))
      else if width = 32 then
        Inr (if isUnsigned then cast_to T (uint zext)
             else cast_to T (sint (ucast zext :: 32 word)))
      else if width = 64 then
        Inr (if isUnsigned then cast_to T (uint zext)
             else cast_to T (sint (ucast zext :: 64 word)))
      else Inl (UnsupportedIntegerWidth width))"
| "getConstScalar float_to_T T (FloatConstant width w0 ws) isUnsigned =
     (if width = 16 then Inr (convert_float float_to_T T (Half (ucast w0)))
      else if width = 32 then Inr (convert_float float_to_T T (FloatValue (w0 # ws)))
      else if width = 64 then Inr (convert_float float_to_T T (DoubleValue (w0 # ws)))
      else Inl (UnsupportedFloatWidth width))"
| "getConstScalar float_to_T T (BoolConstant b) isUnsigned =
     Inr (cast_to T (if b then 1 else 0))"
| "getConstScalar float_to_T T (CompositeConstant cs) isUnsigned =
     Inl UnsupportedConstantType"
| "getConstScalar float_to_T T (NullConstant ty) isUnsigned =
     Inl UnsupportedConstantType"

subsection \<open>getFlattenedCompositeConstant\<close>

text \<open>
  The loop over \<open>composite->GetComponents()\<close>, with the output vector \<open>kernel\<close> passed
  through as \<open>kern\<close>: a nested composite is flattened in place, any other component
  is decoded with \<open>getConstScalar<T>\<close> (unsigned flag at its default \<open>false\<close>) and
  pushed back. An exception of the scalar decoder leaves the loop.
\<close>

fun getFlattenedCompositeConstant ::
  "(ctype \<Rightarrow> fp_value \<Rightarrow> int) \<Rightarrow> ctype \<Rightarrow> spv_constant list \<Rightarrow> int list \<Rightarrow> error + int list" where
  "getFlattenedCompositeConstant float_to_T T [] kern = Inr kern"
| "getFlattenedCompositeConstant float_to_T T (CompositeConstant inner # rest) kern =
     (case getFlattenedCompositeConstant float_to_T T inner kern of
        Inl e \<Rightarrow> Inl e
      | Inr kern' \<Rightarrow> getFlattenedCompositeConstant float_to_T T rest kern')"
| "getFlattenedCompositeConstant float_to_T T (component # rest) kern =
     (case getConstScalar float_to_T T component False of
        Inl e \<Rightarrow> Inl e
      | Inr v \<Rightarrow> getFlattenedCompositeConstant float_to_T T rest (kern @ [v]))"

subsection \<open>getConstVector\<close>

text \<open>
  What the decoder reads of the pass context: the constant manager's
  \<open>FindDeclaredConstant\<close> (\<open>None\<close> is the null pointer), the opcode of the defining
  instruction \<open>get_def_use_mgr()->GetDef(id)->opcode()\<close>, and \<open>getTensorType\<close>.

  Modelled from the spec: \<open>getTensorType\<close> is declared in the header, and its
  definition is in a source file that is not modelled here. It looks up the declared
  type of the id and asserts that it is a tensor type; the model gives the tensor type
  by the id of its shape constant and \<open>None\<close> where that assertion fails.
\<close>

datatype opcode =
    OpConstantComposite
  | OpSpecConstantComposite
  | OpConstantCompositeReplicateEXT
  | OpSpecConstantCompositeReplicateEXT
  | OpConstantNull
  | OpOther

record ir_context =
  FindDeclaredConstant :: "nat \<Rightarrow> spv_constant option"
  GetDef_opcode :: "nat \<Rightarrow> opcode"
  getTensorType :: "nat \<Rightarrow> nat option"

text \<open>
  \<open>size_t\<close> is a 64-bit word. \<open>compositeCount\<close> is the \<open>std::accumulate\<close> of the
  splat branch: starting from \<open>size_t{1}\<close>, each dimension is cast to \<open>size_t\<close> and
  multiplied in, wrapping as \<open>size_t\<close> does.
\<close>

type_synonym size_t = "64 word"

definition compositeCount :: "int list \<Rightarrow> size_t" where
  "compositeCount dimensions = fold (\<lambda>dim acc. acc * word_of_int dim) dimensions 1"

text \<open>\<open>std::vector::resize(count, value)\<close>; memory exhaustion is not modelled.\<close>

definition vector_resize :: "'a list \<Rightarrow> nat \<Rightarrow> 'a \<Rightarrow> 'a list" where
  "vector_resize xs n v = take n xs @ replicate (n - length xs) v"

text \<open>
  \<open>getConstVector<T>(id)\<close>. The function calls itself on the shape constant of the
  tensor type, at \<open>int64_t\<close> in the splat branch and at \<open>T\<close> in the null branch; the
  argument \<open>depth\<close> bounds the depth of these calls, and \<open>None\<close> says that the bound
  was reached.

  The argument \<open>ndebug\<close> says whether the build defines \<open>NDEBUG\<close>. Without it a failed
  \<open>assert\<close> is the error \<open>AssertionFailed\<close>. With it every \<open>assert\<close> is a no-op and
  the function goes on: \<open>kernel.front()\<close> of an empty vector and \<open>shape[0]\<close> of an empty
  shape read outside the vector (the error \<open>OutOfRange\<close>), and after \<open>assert(false)\<close>
  the empty \<open>kernel\<close> is returned. The dereference of a null pointer is the error
  \<open>NullDereference\<close>: of the constant that \<open>FindDeclaredConstant\<close> did not find, and,
  with \<open>NDEBUG\<close>, of the tensor type that \<open>getTensorType\<close> did not find.
\<close>

fun getConstVector ::
  "bool \<Rightarrow> nat \<Rightarrow> ir_context \<Rightarrow> (ctype \<Rightarrow> fp_value \<Rightarrow> int) \<Rightarrow> ctype \<Rightarrow> nat
     \<Rightarrow> (error + int list) option" where
  "getConstVector ndebug 0 ctx float_to_T T ident = None"
| "getConstVector ndebug (Suc depth) ctx float_to_T T ident =
     (case FindDeclaredConstant ctx ident of
        None \<Rightarrow> Some (Inl NullDereference)
      | Some (CompositeConstant components) \<Rightarrow>
          (let isSplat = (GetDef_opcode ctx ident = OpConstantCompositeReplicateEXT \<or>
                          GetDef_opcode ctx ident = OpSpecConstantCompositeReplicateEXT)
           in case getFlattenedCompositeConstant float_to_T T components [] of
                Inl e \<Rightarrow> Some (Inl e)
              | Inr kern \<Rightarrow>
                  if isSplat then
                    (if \<not> ndebug \<and> length kern \<noteq> 1 then Some (Inl AssertionFailed)
                     else case getTensorType ctx ident of
                            None \<Rightarrow>
                              Some (Inl (if ndebug then NullDereference else AssertionFailed))
                          | Some shape_id \<Rightarrow>
                              (case getConstVector ndebug depth ctx float_to_T Int64 shape_id of
                                 None \<Rightarrow> None
                               | Some (Inl e) \<Rightarrow> Some (Inl e)
                               | Some (Inr dimensions) \<Rightarrow>
                                   (case kern of
                                      [] \<Rightarrow> Some (Inl OutOfRange)
                                    | front # _ \<Rightarrow>
                                        Some (Inr (vector_resize kern
                                          (unat (compositeCount dimensions)) front)))))
                  else Some (Inr kern))
      | Some (NullConstant ty) \<Rightarrow>
          (case ty of
             TensorARM shape_id \<Rightarrow>
               (case getConstVector ndebug depth ctx float_to_T T shape_id of
                  None \<Rightarrow> None
                | Some (Inl e) \<Rightarrow> Some (Inl e)
                | Some (Inr shape) \<Rightarrow>
                    if \<not> ndebug \<and> length shape \<noteq> 1 then Some (Inl AssertionFailed)
                    else (case shape of
                            [] \<Rightarrow> Some (Inl OutOfRange)
                          | shape0 # _ \<Rightarrow>
                              Some (Inr (vector_resize []
                                (unat (word_of_int shape0 :: size_t)) 0))))
           | _ \<Rightarrow> if ndebug then Some (Inr []) else Some (Inl AssertionFailed))
      | Some _ \<Rightarrow> if ndebug then Some (Inr []) else Some (Inl AssertionFailed))"

section \<open>Descriptor substitution (src/tensor/descriptor\_binding.hpp)\<close>

subsection \<open>The Vulkan structures\<close>

text \<open>
  The enumerations are datatypes of the values the functions tell apart. Handles are
  64-bit values, \<open>uint32_t\<close> fields are 32-bit words and \<open>VkDeviceSize\<close> is a 64-bit
  word. Where two Vulkan structures use one field name, the later record prefixes it
  (\<open>write_\<close>, \<open>pool_\<close>).
\<close>

datatype VkDescriptorType =
    VK_DESCRIPTOR_TYPE_SAMPLER
  | VK_DESCRIPTOR_TYPE_COMBINED_IMAGE_SAMPLER
  | VK_DESCRIPTOR_TYPE_SAMPLED_IMAGE
  | VK_DESCRIPTOR_TYPE_STORAGE_IMAGE
  | VK_DESCRIPTOR_TYPE_UNIFORM_TEXEL_BUFFER
  | VK_DESCRIPTOR_TYPE_STORAGE_TEXEL_BUFFER
  | VK_DESCRIPTOR_TYPE_UNIFORM_BUFFER
  | VK_DESCRIPTOR_TYPE_STORAGE_BUFFER
  | VK_DESCRIPTOR_TYPE_UNIFORM_BUFFER_DYNAMIC
  | VK_DESCRIPTOR_TYPE_STORAGE_BUFFER_DYNAMIC
  | VK_DESCRIPTOR_TYPE_INPUT_ATTACHMENT
  | VK_DESCRIPTOR_TYPE_TENSOR_ARM

datatype VkImageLayout =
    VK_IMAGE_LAYOUT_UNDEFINED
  | VK_IMAGE_LAYOUT_GENERAL
  | VK_IMAGE_LAYOUT_SHADER_READ_ONLY_OPTIMAL
  | VK_IMAGE_LAYOUT_TENSOR_ALIASING_ARM

datatype VkStructureType =
    VK_STRUCTURE_TYPE_WRITE_DESCRIPTOR_SET
  | VK_STRUCTURE_TYPE_WRITE_DESCRIPTOR_SET_TENSOR_ARM
  | VK_STRUCTURE_TYPE_OTHER nat

type_synonym handle = "64 word"

text \<open>
  A pointer is null, an address of the application's memory, or the address of a node
  of one of the two \<open>std::list\<close>s that \<open>substituteTensorWriteDescriptorSet\<close> returns,
  given by the position of the node in its list.
\<close>

datatype ptr =
    nullptr
  | AppPtr nat
  | BufferInfoNode nat
  | ImageInfoNode nat

record VkDescriptorSetLayoutBinding =
  binding :: "32 word"
  descriptorType :: VkDescriptorType
  descriptorCount :: "32 word"
  stageFlags :: "32 word"
  pImmutableSamplers :: ptr

text \<open>
  \<open>VkDescriptorSetLayoutBindingFlagsCreateInfo\<close>: \<open>pBindingFlags\<close> is the address of
  the caller's array of \<open>VkDescriptorBindingFlags\<close>; element \<open>i\<close> of the array lives at
  address \<open>pBindingFlags + i\<close> of a memory of flag words.
\<close>

record VkDescriptorSetLayoutBindingFlagsCreateInfo =
  bindingCount :: "32 word"
  pBindingFlags :: nat

type_synonym flags_memory = "nat \<Rightarrow> 32 word"

definition VK_DESCRIPTOR_BINDING_UPDATE_AFTER_BIND_BIT :: "32 word" where
  "VK_DESCRIPTOR_BINDING_UPDATE_AFTER_BIND_BIT = 1"

record VkDescriptorImageInfo =
  sampler :: handle
  imageView :: handle
  imageLayout :: VkImageLayout

record VkDescriptorBufferInfo =
  buffer :: handle
  buffer_offset :: "64 word"
  buffer_range :: "64 word"

definition VK_WHOLE_SIZE :: "64 word" where
  "VK_WHOLE_SIZE = NOT 0"

text \<open>
  The \<open>pNext\<close> chain of a write is the list of the structures chained to it; of a
  \<open>VkWriteDescriptorSetTensorARM\<close> the model keeps the array \<open>pTensorViews\<close>
  (\<open>tensorViewCount\<close> is its length), of any other structure its \<open>sType\<close>.
\<close>

datatype chain_struct =
    VkWriteDescriptorSetTensorARM "handle list"
  | OtherStruct VkStructureType

record VkWriteDescriptorSet =
  sType :: VkStructureType
  pNext :: "chain_struct list"
  dstSet :: handle
  dstBinding :: "32 word"
  dstArrayElement :: "32 word"
  write_descriptorCount :: "32 word"
  write_descriptorType :: VkDescriptorType
  pImageInfo :: ptr
  pBufferInfo :: ptr
  pTexelBufferView :: ptr

record VkDescriptorPoolSize =
  pool_type :: VkDescriptorType
  pool_descriptorCount :: "32 word"

text \<open>
  The build configuration: whether \<open>EXPERIMENTAL_MOLTEN_VK_SUPPORT\<close> is defined, and
  the value of the macro \<open>EXPERIMENTAL_MVK_BUFFER_BINDING_OFFSET\<close>.
\<close>

record build_config =
  EXPERIMENTAL_MOLTEN_VK_SUPPORT :: bool
  EXPERIMENTAL_MVK_BUFFER_BINDING_OFFSET :: "32 word"

subsection \<open>hasTensor\<close>

definition hasTensor :: "VkDescriptorSetLayoutBinding \<Rightarrow> bool" where
  "hasTensor obj \<longleftrightarrow> descriptorType obj = VK_DESCRIPTOR_TYPE_TENSOR_ARM"

definition hasTensor_write :: "VkWriteDescriptorSet \<Rightarrow> bool" where
  "hasTensor_write obj \<longleftrightarrow> write_descriptorType obj = VK_DESCRIPTOR_TYPE_TENSOR_ARM"

definition hasTensor_pool :: "VkDescriptorPoolSize \<Rightarrow> bool" where
  "hasTensor_pool obj \<longleftrightarrow> pool_type obj = VK_DESCRIPTOR_TYPE_TENSOR_ARM"

subsection \<open>substituteTensorBinding\<close>

text \<open>
  The body of the loop at index \<open>i\<close>. The state is the vector
  \<open>descriptorSetLayoutBindings\<close> and the memory holding the caller's flags array, which
  the function writes through \<open>const_cast\<close>. \<open>pBindings\<close> is the caller's array, as a
  list of \<open>bindingCount\<close> elements.
\<close>

definition substituteTensorBinding_body ::
  "build_config \<Rightarrow> VkDescriptorSetLayoutBinding list
     \<Rightarrow> VkDescriptorSetLayoutBindingFlagsCreateInfo option \<Rightarrow> nat
     \<Rightarrow> VkDescriptorSetLayoutBinding list \<times> flags_memory
     \<Rightarrow> VkDescriptorSetLayoutBinding list \<times> flags_memory" where
  "substituteTensorBinding_body cfg pBindings bindingInfo i st =
     (case st of (descriptorSetLayoutBindings, mem) \<Rightarrow>
        if hasTensor (pBindings ! i) then
          let changed = descriptorSetLayoutBindings
                [i := (descriptorSetLayoutBindings ! i)
                        \<lparr>descriptorType := VK_DESCRIPTOR_TYPE_UNIFORM_BUFFER\<rparr>];
              extended =
                (if EXPERIMENTAL_MOLTEN_VK_SUPPORT cfg then
                   changed @
                     [\<lparr>binding = binding (pBindings ! i)
                                   + EXPERIMENTAL_MVK_BUFFER_BINDING_OFFSET cfg,
                       descriptorType = VK_DESCRIPTOR_TYPE_STORAGE_BUFFER,
                       descriptorCount = descriptorCount (pBindings ! i),
                       stageFlags = stageFlags (pBindings ! i),
                       pImmutableSamplers = nullptr\<rparr>]
                 else changed)
          in (extended,
              case bindingInfo of
                None \<Rightarrow> mem
              | Some info \<Rightarrow>
                  mem (pBindingFlags info + i :=
                    mem (pBindingFlags info + i)
                      AND NOT VK_DESCRIPTOR_BINDING_UPDATE_AFTER_BIND_BIT))
        else st)"

text \<open>
  \<open>substituteTensorBinding(bindingCount, pBindings, bindingInfo)\<close>: the vector starts
  as a copy of the array, the loop runs over \<open>i = 0, \<dots>, bindingCount - 1\<close>. The
  result is the returned vector and the memory of flags after the call.
\<close>

definition substituteTensorBinding ::
  "build_config \<Rightarrow> flags_memory \<Rightarrow> VkDescriptorSetLayoutBinding list
     \<Rightarrow> VkDescriptorSetLayoutBindingFlagsCreateInfo option
     \<Rightarrow> VkDescriptorSetLayoutBinding list \<times> flags_memory" where
  "substituteTensorBinding cfg mem pBindings bindingInfo =
     fold (substituteTensorBinding_body cfg pBindings bindingInfo)
       [0..<length pBindings] (pBindings, mem)"

subsection \<open>substituteTensorWriteDescriptorSet\<close>

text \<open>
  Modelled from the spec: \<open>findType\<close> (of mlel/utils.hpp, a header that is not
  modelled here) walks the \<open>pNext\<close> chain for the structure whose \<open>sType\<close> is the one asked for, here
  the attached tensor-view list of a write; \<open>None\<close> is its \<open>nullptr\<close>.
\<close>

fun findType :: "chain_struct list \<Rightarrow> handle list option" where
  "findType [] = None"
| "findType (VkWriteDescriptorSetTensorARM pTensorViews # rest) = Some pTensorViews"
| "findType (OtherStruct ty # rest) = findType rest"

text \<open>
  The accessors of \<open>TensorViewARM\<close> (of tensor\_view.hpp, a header that is not
  modelled here) are parameters: \<open>getDescriptorBuffer\<close> takes the device and the view,
  \<open>getTensorBuffer\<close> the view.
\<close>

record tensor_view_access =
  getDescriptorBuffer :: "handle \<Rightarrow> handle \<Rightarrow> handle"
  getTensorBuffer :: "handle \<Rightarrow> handle"

type_synonym write_state =
  "VkWriteDescriptorSet list \<times> VkDescriptorBufferInfo list \<times> VkDescriptorImageInfo list"

text \<open>
  The body of the inner loop at view \<open>j\<close>, on the vector \<open>writes\<close> and the list
  \<open>bufferInfos\<close>. \<open>&bufferInfos.back()\<close> is the node just appended.
\<close>

definition tensor_view_body ::
  "build_config \<Rightarrow> tensor_view_access \<Rightarrow> handle \<Rightarrow> VkWriteDescriptorSet \<Rightarrow> handle list
     \<Rightarrow> nat \<Rightarrow> VkWriteDescriptorSet list \<times> VkDescriptorBufferInfo list
     \<Rightarrow> VkWriteDescriptorSet list \<times> VkDescriptorBufferInfo list" where
  "tensor_view_body cfg tv dev write pTensorViews j st =
     (case st of (writes, bufferInfos) \<Rightarrow>
        let tensorViewARM = pTensorViews ! j;
            bufferInfos1 = bufferInfos @
              [\<lparr>buffer = getDescriptorBuffer tv dev tensorViewARM,
                buffer_offset = 0,
                buffer_range = VK_WHOLE_SIZE\<rparr>];
            writes1 = writes @
              [\<lparr>sType = VK_STRUCTURE_TYPE_WRITE_DESCRIPTOR_SET,
                pNext = [],
                dstSet = dstSet write,
                dstBinding = dstBinding write,
                dstArrayElement = dstArrayElement write + of_nat j,
                write_descriptorCount = 1,
                write_descriptorType = VK_DESCRIPTOR_TYPE_UNIFORM_BUFFER,
                pImageInfo = nullptr,
                pBufferInfo = BufferInfoNode (length bufferInfos1 - 1),
                pTexelBufferView = nullptr\<rparr>]
        in if EXPERIMENTAL_MOLTEN_VK_SUPPORT cfg then
             let bufferInfos2 = bufferInfos1 @
                   [\<lparr>buffer = getTensorBuffer tv tensorViewARM,
                     buffer_offset = 0,
                     buffer_range = VK_WHOLE_SIZE\<rparr>];
                 writes2 = writes1 @
                   [\<lparr>sType = VK_STRUCTURE_TYPE_WRITE_DESCRIPTOR_SET,
                     pNext = [],
                     dstSet = dstSet write,
                     dstBinding = dstBinding write
                                    + EXPERIMENTAL_MVK_BUFFER_BINDING_OFFSET cfg,
                     dstArrayElement = dstArrayElement write + of_nat j,
                     write_descriptorCount = 1,
                     write_descriptorType = VK_DESCRIPTOR_TYPE_STORAGE_BUFFER,
                     pImageInfo = nullptr,
                     pBufferInfo = BufferInfoNode (length bufferInfos2 - 1),
                     pTexelBufferView = nullptr\<rparr>]
             in (writes2, bufferInfos2)
           else (writes1, bufferInfos1))"

text \<open>
  The body of the outer loop for one element \<open>write\<close> of \<open>pDescriptorWrites\<close>.
  \<open>image_mem\<close> is the memory the application's \<open>pImageInfo\<close> pointers are read from.
  The \<open>throw\<close> is the \<open>Inl\<close> result.
\<close>

definition substituteWrite ::
  "build_config \<Rightarrow> tensor_view_access \<Rightarrow> (ptr \<Rightarrow> VkDescriptorImageInfo) \<Rightarrow> handle
     \<Rightarrow> VkWriteDescriptorSet \<Rightarrow> write_state \<Rightarrow> error + write_state" where
  "substituteWrite cfg tv image_mem dev write st =
     (case st of (writes, bufferInfos, imageInfos) \<Rightarrow>
        if \<not> hasTensor_write write then
          if pImageInfo write = nullptr \<or>
             imageLayout (image_mem (pImageInfo write)) \<noteq> VK_IMAGE_LAYOUT_TENSOR_ALIASING_ARM
          then Inr (writes @ [write], bufferInfos, imageInfos)
          else
            let imageInfos1 = imageInfos @
                  [\<lparr>sampler = sampler (image_mem (pImageInfo write)),
                    imageView = imageView (image_mem (pImageInfo write)),
                    imageLayout = VK_IMAGE_LAYOUT_GENERAL\<rparr>];
                write_copy = write\<lparr>pImageInfo := ImageInfoNode (length imageInfos1 - 1)\<rparr>
            in Inr (writes @ [write_copy], bufferInfos, imageInfos1)
        else
          case findType (pNext write) of
            None \<Rightarrow> Inl MissingTensorInfo
          | Some pTensorViews \<Rightarrow>
              (case fold (tensor_view_body cfg tv dev write pTensorViews)
                      [0..<length pTensorViews] (writes, bufferInfos) of
                 (writes', bufferInfos') \<Rightarrow> Inr (writes', bufferInfos', imageInfos)))"

fun substituteWrites ::
  "build_config \<Rightarrow> tensor_view_access \<Rightarrow> (ptr \<Rightarrow> VkDescriptorImageInfo) \<Rightarrow> handle
     \<Rightarrow> VkWriteDescriptorSet list \<Rightarrow> write_state \<Rightarrow> error + write_state" where
  "substituteWrites cfg tv image_mem dev [] st = Inr st"
| "substituteWrites cfg tv image_mem dev (write # rest) st =
     (case substituteWrite cfg tv image_mem dev write st of
        Inl e \<Rightarrow> Inl e
      | Inr st' \<Rightarrow> substituteWrites cfg tv image_mem dev rest st')"

text \<open>
  \<open>substituteTensorWriteDescriptorSet(dev, descriptorWriteCount, pDescriptorWrites)\<close>,
  the array given as a list of \<open>descriptorWriteCount\<close> writes; the three containers
  start empty.
\<close>

definition substituteTensorWriteDescriptorSet ::
  "build_config \<Rightarrow> tensor_view_access \<Rightarrow> (ptr \<Rightarrow> VkDescriptorImageInfo) \<Rightarrow> handle
     \<Rightarrow> VkWriteDescriptorSet list \<Rightarrow> error + write_state" where
  "substituteTensorWriteDescriptorSet cfg tv image_mem dev pDescriptorWrites =
     substituteWrites cfg tv image_mem dev pDescriptorWrites ([], [], [])"

subsection \<open>substituteTensorDescriptorPoolSizes\<close>

text \<open>The first loop: tensor entries are counted and dropped, the others copied.\<close>

definition poolSize_body ::
  "VkDescriptorPoolSize \<Rightarrow> VkDescriptorPoolSize list \<times> 32 word
     \<Rightarrow> VkDescriptorPoolSize list \<times> 32 word" where
  "poolSize_body poolSize st =
     (case st of (descriptorPoolSizes, tensorCount) \<Rightarrow>
        if hasTensor_pool poolSize
        then (descriptorPoolSizes, tensorCount + pool_descriptorCount poolSize)
        else (descriptorPoolSizes @ [poolSize], tensorCount))"

text \<open>\<open>std::find_if\<close>, the iterator given as a position; the length is \<open>end()\<close>.\<close>

fun find_if :: "('a \<Rightarrow> bool) \<Rightarrow> 'a list \<Rightarrow> nat" where
  "find_if P [] = 0"
| "find_if P (x # xs) = (if P x then 0 else Suc (find_if P xs))"

text \<open>
  The block the source writes once for the uniform buffers and, in the experimental
  build, once more for the storage buffers: find the first entry of the type, append a
  new entry when there is none, else add the count to the entry found.
\<close>

definition add_descriptors ::
  "VkDescriptorType \<Rightarrow> 32 word \<Rightarrow> VkDescriptorPoolSize list \<Rightarrow> VkDescriptorPoolSize list" where
  "add_descriptors ty tensorCount descriptorPoolSizes =
     (let desc = find_if (\<lambda>poolSize. pool_type poolSize = ty) descriptorPoolSizes
      in if desc = length descriptorPoolSizes
         then descriptorPoolSizes @ [\<lparr>pool_type = ty, pool_descriptorCount = tensorCount\<rparr>]
         else descriptorPoolSizes
                [desc := (descriptorPoolSizes ! desc)
                   \<lparr>pool_descriptorCount :=
                      pool_descriptorCount (descriptorPoolSizes ! desc) + tensorCount\<rparr>])"

definition substituteTensorDescriptorPoolSizes ::
  "build_config \<Rightarrow> VkDescriptorPoolSize list \<Rightarrow> VkDescriptorPoolSize list" where
  "substituteTensorDescriptorPoolSizes cfg poolSizes =
     (case fold poolSize_body poolSizes ([], 0) of
        (descriptorPoolSizes, tensorCount) \<Rightarrow>
          if tensorCount > 0 then
            let withUniform =
                  add_descriptors VK_DESCRIPTOR_TYPE_UNIFORM_BUFFER tensorCount
                    descriptorPoolSizes
            in if EXPERIMENTAL_MOLTEN_VK_SUPPORT cfg
               then add_descriptors VK_DESCRIPTOR_TYPE_STORAGE_BUFFER tensorCount withUniform
               else withUniform
          else descriptorPoolSizes)"

section \<open>Statements of the specification\<close>

text \<open>
  The rewriting of pool sizes in the words of the specification: every tensor entry is
  removed and the counts of the tensor entries are summed; the sum is added to an
  existing uniform-buffer entry (the first one) if there is one, else a new
  uniform-buffer entry with the sum is appended.
\<close>

definition tensor_total :: "VkDescriptorPoolSize list \<Rightarrow> 32 word" where
  "tensor_total poolSizes =
     sum_list (map pool_descriptorCount (filter hasTensor_pool poolSizes))"

definition other_entries :: "VkDescriptorPoolSize list \<Rightarrow> VkDescriptorPoolSize list" where
  "other_entries poolSizes = filter (\<lambda>poolSize. \<not> hasTensor_pool poolSize) poolSizes"

fun add_to_first ::
  "VkDescriptorType \<Rightarrow> 32 word \<Rightarrow> VkDescriptorPoolSize list \<Rightarrow> VkDescriptorPoolSize list" where
  "add_to_first ty n [] = []"
| "add_to_first ty n (p # ps) =
     (if pool_type p = ty
      then p\<lparr>pool_descriptorCount := pool_descriptorCount p + n\<rparr> # ps
      else p # add_to_first ty n ps)"

definition fold_or_append ::
  "VkDescriptorType \<Rightarrow> 32 word \<Rightarrow> VkDescriptorPoolSize list \<Rightarrow> VkDescriptorPoolSize list" where
  "fold_or_append ty n ps =
     (if ty \<in> set (map pool_type ps) then add_to_first ty n ps
      else ps @ [\<lparr>pool_type = ty, pool_descriptorCount = n\<rparr>])"

definition poolSizes_as_claimed :: "VkDescriptorPoolSize list \<Rightarrow> VkDescriptorPoolSize list" where
  "poolSizes_as_claimed poolSizes =
     fold_or_append VK_DESCRIPTOR_TYPE_UNIFORM_BUFFER (tensor_total poolSizes)
       (other_entries poolSizes)"

text \<open>
  The record that element \<open>k\<close> of the array behind a \<open>pImageInfo\<close> pointer of an
  emitted write designates, given the application's memory and the returned list
  \<open>imageInfos\<close>: an application array is contiguous, a node of the list holds one
  record and nothing behind it.
\<close>

fun designated_image_info ::
  "(ptr \<Rightarrow> VkDescriptorImageInfo) \<Rightarrow> VkDescriptorImageInfo list \<Rightarrow> ptr \<Rightarrow> nat
     \<Rightarrow> VkDescriptorImageInfo option" where
  "designated_image_info image_mem imageInfos (AppPtr a) k = Some (image_mem (AppPtr (a + k)))"
| "designated_image_info image_mem imageInfos (ImageInfoNode n) k =
     (if k = 0 \<and> n < length imageInfos then Some (imageInfos ! n) else None)"
| "designated_image_info image_mem imageInfos p k = None"

text \<open>
  The writes and the buffer-info record that the rewriting of a tensor write is to emit
  for its view \<open>j\<close>: the uniform-buffer write has the destination set and binding of
  the write, the array element \<open>dstArrayElement + j\<close>, one descriptor and the
  buffer-info record at the node \<open>node\<close> of the returned list; the storage-buffer write
  of the experimental build differs in its type and in its binding, moved by the
  offset; the record names a buffer from offset 0 over its whole size.
\<close>

definition uniform_buffer_write ::
  "VkWriteDescriptorSet \<Rightarrow> nat \<Rightarrow> nat \<Rightarrow> VkWriteDescriptorSet" where
  "uniform_buffer_write write j node =
     \<lparr>sType = VK_STRUCTURE_TYPE_WRITE_DESCRIPTOR_SET,
      pNext = [],
      dstSet = dstSet write,
      dstBinding = dstBinding write,
      dstArrayElement = dstArrayElement write + of_nat j,
      write_descriptorCount = 1,
      write_descriptorType = VK_DESCRIPTOR_TYPE_UNIFORM_BUFFER,
      pImageInfo = nullptr,
      pBufferInfo = BufferInfoNode node,
      pTexelBufferView = nullptr\<rparr>"

definition storage_buffer_write ::
  "build_config \<Rightarrow> VkWriteDescriptorSet \<Rightarrow> nat \<Rightarrow> nat \<Rightarrow> VkWriteDescriptorSet" where
  "storage_buffer_write cfg write j node =
     \<lparr>sType = VK_STRUCTURE_TYPE_WRITE_DESCRIPTOR_SET,
      pNext = [],
      dstSet = dstSet write,
      dstBinding = dstBinding write + EXPERIMENTAL_MVK_BUFFER_BINDING_OFFSET cfg,
      dstArrayElement = dstArrayElement write + of_nat j,
      write_descriptorCount = 1,
      write_descriptorType = VK_DESCRIPTOR_TYPE_STORAGE_BUFFER,
      pImageInfo = nullptr,
      pBufferInfo = BufferInfoNode node,
      pTexelBufferView = nullptr\<rparr>"

definition whole_buffer :: "handle \<Rightarrow> VkDescriptorBufferInfo" where
  "whole_buffer b = \<lparr>buffer = b, buffer_offset = 0, buffer_range = VK_WHOLE_SIZE\<rparr>"

definition is_uniform_buffer_write :: "VkWriteDescriptorSet \<Rightarrow> bool" where
  "is_uniform_buffer_write x \<longleftrightarrow> write_descriptorType x = VK_DESCRIPTOR_TYPE_UNIFORM_BUFFER"

definition is_storage_buffer_write :: "VkWriteDescriptorSet \<Rightarrow> bool" where
  "is_storage_buffer_write x \<longleftrightarrow> write_descriptorType x = VK_DESCRIPTOR_TYPE_STORAGE_BUFFER"

text \<open>The number of writes per tensor view: one, and two in the experimental build.\<close>

definition writes_per_view :: "build_config \<Rightarrow> nat" where
  "writes_per_view cfg = (if EXPERIMENTAL_MOLTEN_VK_SUPPORT cfg then 2 else 1)"

section \<open>Example inputs\<close>

text \<open>A sample conversion of floats for the examples: every float converts to 0.\<close>

definition zero_conversion :: "ctype \<Rightarrow> fp_value \<Rightarrow> int" where
  "zero_conversion T fp = 0"

text \<open>
  A module with the shape constants 1 (\<open>[2, 3]\<close>) and 4 (\<open>[4]\<close>), the splat constant 2
  of a tensor of shape 1 with the component 7, and the null constants 3 (of a tensor
  of shape 4) and 5 (of a tensor of shape 1).
\<close>

definition example_module :: ir_context where
  "example_module =
     \<lparr>FindDeclaredConstant = (\<lambda>ident.
          if ident = 1 then
            Some (CompositeConstant [IntConstant 32 False 2 2, IntConstant 32 False 3 3])
          else if ident = 2 then Some (CompositeConstant [IntConstant 8 True 7 7])
          else if ident = 3 then Some (NullConstant (TensorARM 4))
          else if ident = 4 then Some (CompositeConstant [IntConstant 32 False 4 4])
          else if ident = 5 then Some (NullConstant (TensorARM 1))
          else None),
       GetDef_opcode = (\<lambda>ident.
          if ident = 2 then OpConstantCompositeReplicateEXT
          else if ident = 3 \<or> ident = 5 then OpConstantNull
          else OpConstantComposite),
       getTensorType = (\<lambda>ident. if ident = 2 then Some 1 else None)\<rparr>"

text \<open>The two builds, the experimental one with the binding offset 1000.\<close>

definition default_build :: build_config where
  "default_build =
     \<lparr>EXPERIMENTAL_MOLTEN_VK_SUPPORT = False, EXPERIMENTAL_MVK_BUFFER_BINDING_OFFSET = 0\<rparr>"

definition experimental_build :: build_config where
  "experimental_build =
     \<lparr>EXPERIMENTAL_MOLTEN_VK_SUPPORT = True, EXPERIMENTAL_MVK_BUFFER_BINDING_OFFSET = 1000\<rparr>"

definition pool_entry :: "VkDescriptorType \<Rightarrow> 32 word \<Rightarrow> VkDescriptorPoolSize" where
  "pool_entry ty n = \<lparr>pool_type = ty, pool_descriptorCount = n\<rparr>"

text \<open>
  Four layout bindings with the tensor binding at index 2, and a memory of flags in
  which every word is 3 (update-after-bind and one more bit).
\<close>

definition layout_binding :: "32 word \<Rightarrow> VkDescriptorType \<Rightarrow> VkDescriptorSetLayoutBinding" where
  "layout_binding n ty =
     \<lparr>binding = n, descriptorType = ty, descriptorCount = 1, stageFlags = 32,
      pImmutableSamplers = nullptr\<rparr>"

definition four_bindings :: "VkDescriptorSetLayoutBinding list" where
  "four_bindings =
     [layout_binding 0 VK_DESCRIPTOR_TYPE_SAMPLER,
      layout_binding 1 VK_DESCRIPTOR_TYPE_UNIFORM_BUFFER,
      layout_binding 2 VK_DESCRIPTOR_TYPE_TENSOR_ARM,
      layout_binding 3 VK_DESCRIPTOR_TYPE_STORAGE_IMAGE]"

definition flags_at_100 :: VkDescriptorSetLayoutBindingFlagsCreateInfo where
  "flags_at_100 = \<lparr>bindingCount = 4, pBindingFlags = 100\<rparr>"

definition all_flags_3 :: flags_memory where
  "all_flags_3 a = 3"

text \<open>
  Writes to set 9, binding 2, from array element 5 on: a storage-image write of two
  descriptors whose image infos, at the application addresses 100 and 101, both have
  the tensor-aliasing layout; a tensor write with two views attached behind another
  structure; a tensor write with no tensor structure attached.
\<close>

definition sample_write ::
  "VkDescriptorType \<Rightarrow> chain_struct list \<Rightarrow> ptr \<Rightarrow> VkWriteDescriptorSet" where
  "sample_write ty chain info =
     \<lparr>sType = VK_STRUCTURE_TYPE_WRITE_DESCRIPTOR_SET, pNext = chain, dstSet = 9,
      dstBinding = 2, dstArrayElement = 5, write_descriptorCount = 2,
      write_descriptorType = ty, pImageInfo = info, pBufferInfo = nullptr,
      pTexelBufferView = nullptr\<rparr>"

definition image_array_write :: VkWriteDescriptorSet where
  "image_array_write = sample_write VK_DESCRIPTOR_TYPE_STORAGE_IMAGE [] (AppPtr 100)"

definition two_view_write :: VkWriteDescriptorSet where
  "two_view_write =
     sample_write VK_DESCRIPTOR_TYPE_TENSOR_ARM
       [OtherStruct (VK_STRUCTURE_TYPE_OTHER 3), VkWriteDescriptorSetTensorARM [20, 30]]
       nullptr"

definition bare_tensor_write :: VkWriteDescriptorSet where
  "bare_tensor_write =
     sample_write VK_DESCRIPTOR_TYPE_TENSOR_ARM [OtherStruct (VK_STRUCTURE_TYPE_OTHER 3)]
       nullptr"

definition aliasing_images :: "ptr \<Rightarrow> VkDescriptorImageInfo" where
  "aliasing_images p =
     \<lparr>sampler = 0,
      imageView = (case p of AppPtr a \<Rightarrow> of_nat a | _ \<Rightarrow> 0),
      imageLayout = VK_IMAGE_LAYOUT_TENSOR_ALIASING_ARM\<rparr>"

definition sample_views :: tensor_view_access where
  "sample_views =
     \<lparr>getDescriptorBuffer = (\<lambda>dev view. dev + view),
      getTensorBuffer = (\<lambda>view. view + 1000)\<rparr>"

text \<open>
  A module with the shape constant 1 (\<open>[260]\<close>, a 32-bit integer) and the null
  constant 2 of a tensor of that shape.
\<close>

definition wide_shape_module :: ir_context where
  "wide_shape_module =
     \<lparr>FindDeclaredConstant = (\<lambda>ident.
          if ident = 1 then Some (CompositeConstant [IntConstant 32 False 260 260])
          else if ident = 2 then Some (NullConstant (TensorARM 1))
          else None),
       GetDef_opcode = (\<lambda>ident. if ident = 2 then OpConstantNull else OpConstantComposite),
       getTensorType = (\<lambda>ident. None)\<rparr>"

section \<open>Properties of the constant decoder\<close>

subsection \<open>Ranges of the decoded values\<close>

lemma signed_take_bit_fits64:
  assumes "n \<le> 63"
  shows "fits64 (signed_take_bit n v)"
proof -
  have p: "(2::int) ^ n \<le> 2 ^ 63"
    by (rule power_increasing) (use assms in simp_all)
  have q: "(2::int) ^ 63 \<le> 2 ^ 64"
    by (rule power_increasing) simp_all
  have lo: "- ((2::int) ^ n) \<le> signed_take_bit n v"
    by (rule signed_take_bit_int_greater_eq_minus_exp)
  have hi: "signed_take_bit n v < (2::int) ^ n"
    by (rule signed_take_bit_int_less_exp)
  from p q lo hi show ?thesis
    unfolding fits64_def by linarith
qed

lemma take_bit_fits64:
  assumes "n \<le> 64"
  shows "fits64 (take_bit n v)"
proof -
  have p: "(2::int) ^ n \<le> 2 ^ 64"
    by (rule power_increasing) (use assms in simp_all)
  have q: "(0::int) \<le> 2 ^ 63"
    by (rule zero_le_power) simp
  have lo: "(0::int) \<le> take_bit n v"
    by (rule take_bit_nonnegative)
  have hi: "take_bit n v < (2::int) ^ n"
    by (rule take_bit_int_less_exp)
  from p q lo hi show ?thesis
    unfolding fits64_def by linarith
qed

lemma cast_to_fits64: "fits64 (cast_to T v)"
  unfolding cast_to_def
  by (cases T) (simp_all add: signed_take_bit_fits64 take_bit_fits64)

lemma getConstScalar_fits64:
  "getConstScalar f T c u = Inr v \<Longrightarrow> fits64 v"
  by (cases c) (auto simp: cast_to_fits64 convert_float_def split: if_splits)

lemma flatten_fits64:
  "getFlattenedCompositeConstant f T cs kern = Inr out \<Longrightarrow>
   list_all fits64 kern \<Longrightarrow> list_all fits64 out"
proof (induction f T cs kern arbitrary: out rule: getFlattenedCompositeConstant.induct)
  case (2 f T inner rest kern)
  then show ?case by (simp split: sum.splits)
qed (simp_all split: sum.splits add: getConstScalar_fits64 del: getConstScalar.simps)

lemma vector_resize_fits64:
  "list_all fits64 xs \<Longrightarrow> fits64 v \<Longrightarrow> list_all fits64 (vector_resize xs n v)"
  by (auto simp: vector_resize_def list_all_iff dest: in_set_takeD)

lemma fits64_0: "fits64 0"
  by (simp add: fits64_def)

lemma getConstVector_fits64:
  "getConstVector ndebug n ctx f T i = Some (Inr out) \<Longrightarrow> list_all fits64 out"
proof (induction n arbitrary: T i out)
  case 0
  then show ?case by simp
next
  case (Suc n)
  show ?case
  proof (cases "FindDeclaredConstant ctx i")
    case None
    with Suc.prems show ?thesis by simp
  next
    case (Some c)
    show ?thesis
    proof (cases c)
      case (CompositeConstant comps)
      show ?thesis
      proof (cases "getFlattenedCompositeConstant f T comps []")
        case (Inl e)
        with Suc.prems Some CompositeConstant show ?thesis by simp
      next
        case (Inr kern)
        then have k: "list_all fits64 kern"
          by (rule flatten_fits64) simp
        then have h: "kern = front # rest \<Longrightarrow> fits64 front" for front rest
          by simp
        from Suc.prems Some CompositeConstant Inr k h show ?thesis
          by (auto simp: Let_def vector_resize_fits64
              split: if_splits option.splits sum.splits list.splits)
      qed
    next
      case (NullConstant ty)
      with Suc.prems Some show ?thesis
        by (auto simp: vector_resize_def list_all_iff fits64_0
            split: if_splits option.splits sum.splits spv_type.splits list.splits)
    qed (use Suc.prems Some in \<open>simp_all split: if_splits\<close>)
  qed
qed

lemma unat_size_t_of_nat:
  "fits64 (int n) \<Longrightarrow> unat (of_nat n :: size_t) = n"
  by (simp add: fits64_def unat_of_nat take_bit_nat_eq_self_iff flip: take_bit_eq_mod)

lemma sint_signed_take_bit_63: "sint (z :: 64 word) = signed_take_bit 63 (uint z)"
  by (simp add: sint_uint)

lemma flatten_single:
  "\<not> is_CompositeConstant c \<Longrightarrow> getConstScalar f T c False = Inr v \<Longrightarrow> getFlattenedCompositeConstant f T [c] [] = Inr [v]"
  by (cases c) (simp_all del: getConstScalar.simps)

lemma compositeCount_prod: "compositeCount dims = prod_list (map word_of_int dims)"
proof -
  have "fold (\<lambda>dim acc. acc * word_of_int dim) dims (a :: size_t) = a * prod_list (map word_of_int dims)" for a
    by (induction dims arbitrary: a) (simp_all add: mult.assoc)
  then show ?thesis by (simp add: compositeCount_def)
qed

lemma word_of_int_prod_list:
  "(word_of_int (prod_list ds) :: size_t) = prod_list (map word_of_int ds)"
  by (induction ds) simp_all

lemma prod_list_nonneg_int:
  "\<forall>d\<in>set ds. (0::int) \<le> d \<Longrightarrow> 0 \<le> prod_list ds"
  by (induction ds) simp_all

lemma unat_size_t_of_int:
  assumes "0 \<le> x" and "x < 2 ^ 64"
  shows "unat (word_of_int x :: size_t) = nat x"
proof -
  have "uint (word_of_int x :: size_t) = take_bit 64 x"
    by (simp add: uint_word_of_int_eq)
  also have "\<dots> = x"
    using assms by (simp add: take_bit_int_eq_self)
  finally have "uint (word_of_int x :: size_t) = x" .
  then show ?thesis
    by (simp add: unat_eq_nat_uint)
qed

lemma compositeCount_exact:
  assumes "\<forall>d\<in>set dimensions. 0 \<le> d" and "prod_list dimensions < 2 ^ 64"
  shows "unat (compositeCount dimensions) = nat (prod_list dimensions)"
proof -
  have "compositeCount dimensions = word_of_int (prod_list dimensions)"
    unfolding compositeCount_prod word_of_int_prod_list ..
  then show ?thesis
    using unat_size_t_of_int [OF prod_list_nonneg_int [OF assms(1)] assms(2)] by (simp only:)
qed

subsection \<open>Depth of the recursion\<close>

text \<open>
  A result reached within some depth is the result at every greater depth: the bound
  only says how deep the chain of shape constants may be.
\<close>

lemma getConstVector_deeper:
  "getConstVector ndebug depth ctx float_to_T T ident = Some r \<Longrightarrow>
   getConstVector ndebug (Suc depth) ctx float_to_T T ident = Some r"
proof (induction depth arbitrary: T ident r)
  case 0
  then show ?case by simp
next
  case (Suc depth)
  note ih = Suc.IH
  note prem = Suc.prems [unfolded getConstVector.simps(2)]
  show ?case
  proof (cases "FindDeclaredConstant ctx ident")
    case None
    with prem show ?thesis
      by (subst getConstVector.simps(2)) simp
  next
    case (Some c)
    show ?thesis
    proof (cases c)
      case (CompositeConstant comps)
      show ?thesis
      proof (cases "getTensorType ctx ident")
        case None
        with prem Some CompositeConstant show ?thesis
          by (subst getConstVector.simps(2))
              (auto simp del: getConstVector.simps simp: Let_def
                split: sum.splits if_splits list.splits)
      next
        case t: (Some shape_id)
        show ?thesis
        proof (cases "getConstVector ndebug depth ctx float_to_T Int64 shape_id")
          case None
          with prem Some CompositeConstant t show ?thesis
            by (subst getConstVector.simps(2))
              (auto simp del: getConstVector.simps simp: Let_def split: sum.splits if_splits)
        next
          case s: (Some dims)
          from ih [OF s]
          have "getConstVector ndebug (Suc depth) ctx float_to_T Int64 shape_id = Some dims" .
          with prem Some CompositeConstant t s show ?thesis
            by (subst getConstVector.simps(2))
              (auto simp del: getConstVector.simps simp: Let_def
                split: sum.splits if_splits list.splits)
        qed
      qed
    next
      case (NullConstant ty)
      show ?thesis
      proof (cases ty)
        case (TensorARM shape_id)
        show ?thesis
        proof (cases "getConstVector ndebug depth ctx float_to_T T shape_id")
          case None
          with prem Some NullConstant TensorARM show ?thesis
            by (subst getConstVector.simps(2))
              (auto simp del: getConstVector.simps simp: Let_def
                split: sum.splits if_splits list.splits)
        next
          case s: (Some shape)
          from ih [OF s]
          have "getConstVector ndebug (Suc depth) ctx float_to_T T shape_id = Some shape" .
          with prem Some NullConstant TensorARM s show ?thesis
            by (subst getConstVector.simps(2))
              (auto simp del: getConstVector.simps simp: Let_def
                split: sum.splits if_splits list.splits)
        qed
      qed (use prem Some NullConstant in
          \<open>simp_all del: getConstVector.simps add: getConstVector.simps(2) [of _ "Suc depth"]\<close>)
    qed (use prem Some in
        \<open>simp_all del: getConstVector.simps add: getConstVector.simps(2) [of _ "Suc depth"]\<close>)
  qed
qed

lemma getConstVector_depth_mono:
  "getConstVector ndebug depth ctx float_to_T T ident = Some r \<Longrightarrow>
   getConstVector ndebug (depth + k) ctx float_to_T T ident = Some r"
  by (induction k) (simp_all add: getConstVector_deeper del: getConstVector.simps)

subsection \<open>Scalar constants\<close>

text \<open>
  Claim C1, as amended. The scalar decoder fails with the unsupported-width error on an
  unsigned integer constant whose width is not 8, 16, 32 or 64 and on a float constant
  whose width is not 16, 32 or 64, and with the unsupported-type error on a composite
  or null constant. A signed integer constant is not checked for its width: whatever
  the width, it decodes to the sign-extended value converted to \<open>T\<close>.
\<close>

theorem getConstScalar_unsupported:
  "(w \<notin> {8, 16, 32, 64} \<longrightarrow>
      getConstScalar float_to_T T (IntConstant w False sext zext) u
        = Inl (UnsupportedIntegerWidth w)) \<and>
   (w \<notin> {16, 32, 64} \<longrightarrow>
      getConstScalar float_to_T T (FloatConstant w w0 ws) u = Inl (UnsupportedFloatWidth w)) \<and>
   getConstScalar float_to_T T (CompositeConstant cs) u = Inl UnsupportedConstantType \<and>
   getConstScalar float_to_T T (NullConstant ty) u = Inl UnsupportedConstantType \<and>
   getConstScalar float_to_T T (IntConstant w True sext zext) u = Inr (cast_to T (sint sext))"
  by simp

text \<open>An instance of \<open>getConstScalar_unsupported\<close> on a concrete input.\<close>

theorem getConstScalar_unsupported_witness:
  "getConstScalar zero_conversion Int64 (IntConstant 24 False 5 5) False
     = Inl (UnsupportedIntegerWidth 24) \<and>
   getConstScalar zero_conversion Int64 (FloatConstant 128 0 [0, 0, 0]) False
     = Inl (UnsupportedFloatWidth 128) \<and>
   getConstScalar zero_conversion Int64 (IntConstant 24 True 5 5) False = Inr 5"
  using getConstScalar_unsupported [of 24 zero_conversion Int64 5 5 False]
    getConstScalar_unsupported [of 128 zero_conversion Int64 0 0 False 0 "[0, 0, 0]"]
  by (simp add: cast_to_def)

text \<open>
  Claim C1 as stated fails: a signed integer constant of width 24, outside
  \<open>{8, 16, 32, 64}\<close>, decodes to its value instead of failing.
\<close>

theorem getConstScalar_signed_width_counterexample:
  "(24::nat) \<notin> {8, 16, 32, 64} \<and>
   getConstScalar zero_conversion Int64 (IntConstant 24 True 5 5) False = Inr 5"
  by (simp add: cast_to_def)

text \<open>
  Claim C2. A signed integer constant decodes to its sign-extended value converted to the
  target type. An unsigned constant of width \<open>w\<close> in \<open>{8, 16, 32, 64}\<close> decodes, without
  the unsigned flag, to its zero-extended value read through the signed \<open>w\<close>-bit type
  and then converted, and with the flag to its zero-extended value converted directly.
\<close>

theorem getConstScalar_integer:
  "getConstScalar float_to_T T (IntConstant w True sext zext) u = Inr (cast_to T (sint sext)) \<and>
   (w \<in> {8, 16, 32, 64} \<longrightarrow>
      getConstScalar float_to_T T (IntConstant w False sext zext) False
        = Inr (cast_to T (signed_take_bit (w - 1) (uint zext))) \<and>
      getConstScalar float_to_T T (IntConstant w False sext zext) True
        = Inr (cast_to T (uint zext)))"
  by (auto simp: signed_ucast_eq sint_signed_take_bit_63)

text \<open>
  The example of the specification: the unsigned 8-bit constant 200 decodes to \<open>-56\<close>
  without the flag and to 200 with it.
\<close>

theorem getConstScalar_integer_witness:
  "getConstScalar zero_conversion Int64 (IntConstant 8 True (- 56) 200) False = Inr (- 56) \<and>
   getConstScalar zero_conversion Int64 (IntConstant 8 False (- 56) 200) False = Inr (- 56) \<and>
   getConstScalar zero_conversion Int64 (IntConstant 8 False (- 56) 200) True = Inr 200"
  using getConstScalar_integer [of zero_conversion Int64 8 "- 56" 200 False]
  by (simp add: cast_to_def)

subsection \<open>Vector constants\<close>

text \<open>
  Claim C6. For a composite constant defined by a replicate opcode, whose single
  component decodes to \<open>v\<close>, the vector decoder yields \<open>v\<close> replicated to the product of
  the dimensions of the tensor's shape, the shape being the decoding (at \<open>int64_t\<close>) of
  the tensor type's shape constant; when that decoding returns within depth \<open>depth\<close>, the
  splat decoding returns within \<open>Suc depth\<close>. The product is the one the code computes,
  in \<open>size_t\<close>; \<open>compositeCount_exact\<close> above says when it is the product of the
  integers. This holds with and without \<open>NDEBUG\<close>.
\<close>

theorem getConstVector_splat:
  assumes "FindDeclaredConstant ctx ident = Some (CompositeConstant [component])"
    and "GetDef_opcode ctx ident = OpConstantCompositeReplicateEXT \<or>
         GetDef_opcode ctx ident = OpSpecConstantCompositeReplicateEXT"
    and "getConstScalar float_to_T T component False = Inr v"
    and "getTensorType ctx ident = Some shape_id"
    and "getConstVector ndebug depth ctx float_to_T Int64 shape_id = Some (Inr dimensions)"
  shows "getConstVector ndebug (Suc depth) ctx float_to_T T ident =
           Some (Inr (replicate (unat (prod_list (map word_of_int dimensions) :: size_t)) v))"
proof -
  have "\<not> is_CompositeConstant component"
    using assms(3) by (cases component) simp_all
  then have flat: "getFlattenedCompositeConstant float_to_T T [component] [] = Inr [v]"
    using assms(3) by (rule flatten_single)
  have "vector_resize [v] n v = replicate n v" for n
    by (cases n) (simp_all add: vector_resize_def replicate_append_same)
  with assms(1,2,4,5) flat show ?thesis
    by (auto simp: compositeCount_prod)
qed

text \<open>The example of the specification: shape \<open>[2, 3]\<close> and component 7.\<close>

theorem getConstVector_splat_witness:
  "getConstVector False 2 example_module zero_conversion UInt32 2
     = Some (Inr [7, 7, 7, 7, 7, 7]) \<and>
   getConstVector True 2 example_module zero_conversion UInt32 2
     = Some (Inr [7, 7, 7, 7, 7, 7])"
proof -
  have c: "FindDeclaredConstant example_module 2 = Some (CompositeConstant [IntConstant 8 True 7 7])"
    by (simp add: example_module_def)
  have op: "GetDef_opcode example_module 2 = OpConstantCompositeReplicateEXT \<or>
            GetDef_opcode example_module 2 = OpSpecConstantCompositeReplicateEXT"
    by (simp add: example_module_def)
  have v: "getConstScalar zero_conversion UInt32 (IntConstant 8 True 7 7) False = Inr 7"
    by (simp add: cast_to_def)
  have t: "getTensorType example_module 2 = Some 1"
    by (simp add: example_module_def)
  have d: "getConstVector ndebug (Suc 0) example_module zero_conversion Int64 1
             = Some (Inr [2, 3])" for ndebug
    by (simp add: example_module_def cast_to_def)
  have n: "unat (prod_list (map word_of_int [2, 3]) :: size_t) = 6"
    by simp
  have r: "replicate 6 (7::int) = [7, 7, 7, 7, 7, 7]"
    by code_simp
  have two: "(2::nat) = Suc (Suc 0)"
    by simp
  from getConstVector_splat [OF c op v t d [of False]]
    getConstVector_splat [OF c op v t d [of True]]
  show ?thesis
    unfolding n r two by (rule conjI)
qed

text \<open>
  What the null branch computes: when the shape constant of the tensor type, decoded at
  the requested type \<open>T\<close>, is \<open>[n]\<close>, the result is \<open>n\<close> zeros, with and without
  \<open>NDEBUG\<close>.
\<close>

lemma getConstVector_null_decoded_shape:
  assumes "FindDeclaredConstant ctx ident = Some (NullConstant (TensorARM shape_id))"
    and "getConstVector ndebug depth ctx float_to_T T shape_id = Some (Inr [int n])"
  shows "getConstVector ndebug (Suc depth) ctx float_to_T T ident = Some (Inr (replicate n 0))"
proof -
  from assms(2) have "list_all fits64 [int n]"
    by (rule getConstVector_fits64)
  then have "unat (word_of_int (int n) :: size_t) = n"
    by (simp add: unat_size_t_of_nat)
  with assms show ?thesis
    by (simp add: vector_resize_def)
qed

text \<open>
  Claim C7 fails on the code in two ways. First, the null branch decodes the shape
  constant at the requested type \<open>T\<close>, where the splat branch decodes it at \<open>int64_t\<close>:
  for a rank-1 tensor of shape \<open>[260]\<close> (as the decoding at \<open>int64_t\<close> gives it), the
  decoding of the null constant at \<open>uint8_t\<close> reads the shape as \<open>[4]\<close> and yields 4
  zeros, not 260, in either build. Second, the rank is checked by \<open>assert\<close> only: for the
  null constant of the rank-2 tensor of shape \<open>[2, 3]\<close> the build without \<open>NDEBUG\<close>
  fails, and the build with \<open>NDEBUG\<close> yields the sequence of \<open>shape[0] = 2\<close> zeros.
\<close>

theorem getConstVector_null_divergence:
  "getConstVector ndebug 2 wide_shape_module zero_conversion Int64 1 = Some (Inr [260]) \<and>
   getConstVector ndebug 2 wide_shape_module zero_conversion UInt8 2
     = Some (Inr [0, 0, 0, 0]) \<and>
   getConstVector ndebug 2 example_module zero_conversion Int64 1 = Some (Inr [2, 3]) \<and>
   getConstVector False 2 example_module zero_conversion UInt32 5
     = Some (Inl AssertionFailed) \<and>
   getConstVector True 2 example_module zero_conversion UInt32 5 = Some (Inr [0, 0])"
proof -
  have two: "(2::nat) = Suc (Suc 0)"
    by simp
  have r4: "replicate 4 (0::int) = [0, 0, 0, 0]"
    by code_simp
  have r2: "replicate 2 (0::int) = [0, 0]"
    by code_simp
  have w1: "getConstVector ndebug (Suc depth) wide_shape_module zero_conversion Int64 1
              = Some (Inr [260])" for depth
    by (simp add: wide_shape_module_def cast_to_def)
  have w8: "getConstVector ndebug (Suc 0) wide_shape_module zero_conversion UInt8 1
              = Some (Inr [int 4])"
    by (simp add: wide_shape_module_def cast_to_def)
  have c2: "FindDeclaredConstant wide_shape_module 2 = Some (NullConstant (TensorARM 1))"
    by (simp add: wide_shape_module_def)
  have w2: "getConstVector ndebug (Suc (Suc 0)) wide_shape_module zero_conversion UInt8 2
              = Some (Inr (replicate 4 0))"
    using c2 w8 by (rule getConstVector_null_decoded_shape)
  have e1: "getConstVector ndebug (Suc depth) example_module zero_conversion Int64 1
              = Some (Inr [2, 3])" for depth
    by (simp add: example_module_def cast_to_def)
  have e32: "getConstVector nd (Suc 0) example_module zero_conversion UInt32 1
              = Some (Inr [2, 3])" for nd
    by (simp add: example_module_def cast_to_def)
  have c5: "FindDeclaredConstant example_module 5 = Some (NullConstant (TensorARM 1))"
    by (simp add: example_module_def)
  have f5: "getConstVector False (Suc (Suc 0)) example_module zero_conversion UInt32 5
              = Some (Inl AssertionFailed)"
    using c5 e32 [of False] by simp
  have t5: "getConstVector True (Suc (Suc 0)) example_module zero_conversion UInt32 5
              = Some (Inr (replicate 2 0))"
    using c5 e32 [of True] by (simp add: vector_resize_def)
  from w1 [of "Suc 0"] w2 [unfolded r4] e1 [of "Suc 0"] f5 t5 [unfolded r2] show ?thesis
    unfolding two by (intro conjI)
qed

section \<open>Properties of the descriptor substitution\<close>

subsection \<open>Pool sizes\<close>

lemma fold_poolSize_body:
  "fold poolSize_body ps (acc, n)
     = (acc @ other_entries ps, n + tensor_total ps)"
  by (induction ps arbitrary: acc n)
    (simp_all add: poolSize_body_def other_entries_def tensor_total_def add.assoc)

lemma find_if_end: "find_if P xs = length xs \<longleftrightarrow> \<not> (\<exists>x\<in>set xs. P x)"
proof (induction xs)
  case Nil
  show ?case by simp
next
  case (Cons x xs)
  have "find_if P xs \<le> length xs" for xs :: "'a list"
    by (induction xs) simp_all
  with Cons show ?case by auto
qed

lemma add_descriptors_eq: "add_descriptors ty n ps = fold_or_append ty n ps"
proof (cases "\<exists>p\<in>set ps. pool_type p = ty")
  case False
  then show ?thesis
    by (auto simp: add_descriptors_def fold_or_append_def Let_def find_if_end)
next
  case True
  then have "ps[find_if (\<lambda>poolSize. pool_type poolSize = ty) ps :=
               (ps ! find_if (\<lambda>poolSize. pool_type poolSize = ty) ps)
                 \<lparr>pool_descriptorCount :=
                    pool_descriptorCount (ps ! find_if (\<lambda>poolSize. pool_type poolSize = ty) ps) + n\<rparr>]
             = add_to_first ty n ps"
    by (induction ps) auto
  with True show ?thesis
    by (auto simp: add_descriptors_def fold_or_append_def Let_def find_if_end)
qed

text \<open>
  Claim C5, as amended. The rewriting of the pool sizes removes every tensor entry and
  keeps the other entries in order. When the sum of the tensor counts (a \<open>uint32_t\<close>)
  is not zero, it adds the sum to the first uniform-buffer entry if there is one and
  else appends a uniform-buffer entry with the sum; the experimental build then does the
  same for the storage buffers. When the sum is zero, nothing is added or appended.
\<close>

theorem substituteTensorDescriptorPoolSizes_result:
  "substituteTensorDescriptorPoolSizes cfg poolSizes =
     (if tensor_total poolSizes = 0 then other_entries poolSizes
      else if EXPERIMENTAL_MOLTEN_VK_SUPPORT cfg then
        fold_or_append VK_DESCRIPTOR_TYPE_STORAGE_BUFFER (tensor_total poolSizes)
          (fold_or_append VK_DESCRIPTOR_TYPE_UNIFORM_BUFFER (tensor_total poolSizes)
             (other_entries poolSizes))
      else fold_or_append VK_DESCRIPTOR_TYPE_UNIFORM_BUFFER (tensor_total poolSizes)
             (other_entries poolSizes))"
  by (simp add: substituteTensorDescriptorPoolSizes_def fold_poolSize_body
      add_descriptors_eq word_greater_zero_iff)

text \<open>
  The examples of the specification, \<open>{TENSOR: 5, UNIFORM_BUFFER: 10}\<close> and
  \<open>{TENSOR: 3}\<close>, a list with no tensor entry, and \<open>{TENSOR: 3}\<close> in the
  experimental build.
\<close>

theorem substituteTensorDescriptorPoolSizes_result_witness:
  "substituteTensorDescriptorPoolSizes default_build
     [pool_entry VK_DESCRIPTOR_TYPE_TENSOR_ARM 5, pool_entry VK_DESCRIPTOR_TYPE_UNIFORM_BUFFER 10]
     = [pool_entry VK_DESCRIPTOR_TYPE_UNIFORM_BUFFER 15] \<and>
   substituteTensorDescriptorPoolSizes default_build [pool_entry VK_DESCRIPTOR_TYPE_TENSOR_ARM 3]
     = [pool_entry VK_DESCRIPTOR_TYPE_UNIFORM_BUFFER 3] \<and>
   substituteTensorDescriptorPoolSizes default_build [pool_entry VK_DESCRIPTOR_TYPE_SAMPLER 4]
     = [pool_entry VK_DESCRIPTOR_TYPE_SAMPLER 4] \<and>
   substituteTensorDescriptorPoolSizes experimental_build
     [pool_entry VK_DESCRIPTOR_TYPE_TENSOR_ARM 3]
     = [pool_entry VK_DESCRIPTOR_TYPE_UNIFORM_BUFFER 3,
        pool_entry VK_DESCRIPTOR_TYPE_STORAGE_BUFFER 3]"
  using substituteTensorDescriptorPoolSizes_result [of experimental_build
      "[pool_entry VK_DESCRIPTOR_TYPE_TENSOR_ARM 3]"]
    substituteTensorDescriptorPoolSizes_result [of default_build
      "[pool_entry VK_DESCRIPTOR_TYPE_TENSOR_ARM 5, pool_entry VK_DESCRIPTOR_TYPE_UNIFORM_BUFFER 10]"]
    substituteTensorDescriptorPoolSizes_result [of default_build
      "[pool_entry VK_DESCRIPTOR_TYPE_TENSOR_ARM 3]"]
    substituteTensorDescriptorPoolSizes_result [of default_build
      "[pool_entry VK_DESCRIPTOR_TYPE_SAMPLER 4]"]
  by (simp add: default_build_def experimental_build_def pool_entry_def tensor_total_def
      other_entries_def hasTensor_pool_def fold_or_append_def)

text \<open>
  Claim C5 as stated fails on a list with no tensor entry and no uniform-buffer entry:
  the claim has a uniform-buffer entry of count 0 appended, the code returns the list
  as it is.
\<close>

theorem substituteTensorDescriptorPoolSizes_counterexample:
  "substituteTensorDescriptorPoolSizes default_build [pool_entry VK_DESCRIPTOR_TYPE_SAMPLER 4]
     = [pool_entry VK_DESCRIPTOR_TYPE_SAMPLER 4] \<and>
   poolSizes_as_claimed [pool_entry VK_DESCRIPTOR_TYPE_SAMPLER 4]
     = [pool_entry VK_DESCRIPTOR_TYPE_SAMPLER 4, pool_entry VK_DESCRIPTOR_TYPE_UNIFORM_BUFFER 0]"
  by (simp add: substituteTensorDescriptorPoolSizes_def poolSize_body_def default_build_def
      pool_entry_def poolSizes_as_claimed_def tensor_total_def other_entries_def
      hasTensor_pool_def fold_or_append_def)

subsection \<open>Descriptor writes\<close>

lemma substituteWrite_error:
  "substituteWrite cfg tv image_mem dev write st = Inl e \<Longrightarrow> e = MissingTensorInfo"
  by (auto simp: substituteWrite_def Let_def split: prod.splits if_splits option.splits)

lemma substituteWrite_missing:
  "hasTensor_write write \<Longrightarrow> findType (pNext write) = None \<Longrightarrow>
   substituteWrite cfg tv image_mem dev write st = Inl MissingTensorInfo"
  by (simp add: substituteWrite_def split: prod.splits)

lemma substituteWrites_missing:
  "write \<in> set ws \<Longrightarrow> hasTensor_write write \<Longrightarrow> findType (pNext write) = None \<Longrightarrow>
   substituteWrites cfg tv image_mem dev ws st = Inl MissingTensorInfo"
proof (induction ws arbitrary: st)
  case Nil
  then show ?case by simp
next
  case (Cons x ws)
  show ?case
  proof (cases "substituteWrite cfg tv image_mem dev x st")
    case (Inl e)
    then show ?thesis
      by (simp add: substituteWrite_error)
  next
    case (Inr st')
    with Cons.prems have "write \<in> set ws"
      by (auto simp: substituteWrite_missing)
    with Cons.IH Cons.prems Inr show ?thesis by simp
  qed
qed

text \<open>
  Claim C8. When any write of the call is of tensor type and has no tensor-view
  structure in its \<open>pNext\<close> chain, the whole call fails with the missing-tensor-info
  error: it returns no writes at all.
\<close>

theorem substituteTensorWriteDescriptorSet_missing_tensor_info:
  assumes "write \<in> set pDescriptorWrites"
    and "hasTensor_write write"
    and "findType (pNext write) = None"
  shows "substituteTensorWriteDescriptorSet cfg tv image_mem dev pDescriptorWrites
           = Inl MissingTensorInfo"
  using assms unfolding substituteTensorWriteDescriptorSet_def
  by (rule substituteWrites_missing)

text \<open>A call whose third write is a tensor write with no tensor views attached.\<close>

theorem substituteTensorWriteDescriptorSet_missing_tensor_info_witness:
  "substituteTensorWriteDescriptorSet default_build sample_views aliasing_images 7
     [image_array_write, two_view_write, bare_tensor_write] = Inl MissingTensorInfo"
proof -
  have "bare_tensor_write \<in> set [image_array_write, two_view_write, bare_tensor_write]"
    by simp
  moreover have "hasTensor_write bare_tensor_write"
    by (simp add: hasTensor_write_def bare_tensor_write_def sample_write_def)
  moreover have "findType (pNext bare_tensor_write) = None"
    by (simp add: bare_tensor_write_def sample_write_def)
  ultimately show ?thesis
    by (rule substituteTensorWriteDescriptorSet_missing_tensor_info)
qed


subsection \<open>Layout bindings\<close>

text \<open>The state of the loop after the indices below \<open>k\<close>.\<close>

lemma substituteTensorBinding_loop:
  assumes "k \<le> length pBindings"
  shows "\<exists>vec mem'.
           fold (substituteTensorBinding_body cfg pBindings bindingInfo) [0..<k] (pBindings, mem)
             = (vec, mem') \<and>
           length vec = length pBindings +
             (if EXPERIMENTAL_MOLTEN_VK_SUPPORT cfg
              then length (filter hasTensor (take k pBindings)) else 0) \<and>
           (\<forall>i<length pBindings.
              vec ! i = (if i < k \<and> hasTensor (pBindings ! i)
                         then (pBindings ! i)\<lparr>descriptorType := VK_DESCRIPTOR_TYPE_UNIFORM_BUFFER\<rparr>
                         else pBindings ! i)) \<and>
           mem' = (case bindingInfo of
                     None \<Rightarrow> mem
                   | Some info \<Rightarrow>
                       (\<lambda>a. if \<exists>i<k. hasTensor (pBindings ! i) \<and> a = pBindingFlags info + i
                            then mem a AND NOT VK_DESCRIPTOR_BINDING_UPDATE_AFTER_BIND_BIT
                            else mem a))"
  using assms
proof (induction k)
  case 0
  then show ?case by (simp split: option.splits)
next
  case (Suc k)
  then have k: "k < length pBindings" by simp
  from Suc obtain vec mem' where
    f: "fold (substituteTensorBinding_body cfg pBindings bindingInfo) [0..<k] (pBindings, mem)
          = (vec, mem')"
    and len: "length vec = length pBindings +
             (if EXPERIMENTAL_MOLTEN_VK_SUPPORT cfg
              then length (filter hasTensor (take k pBindings)) else 0)"
    and el: "\<forall>i<length pBindings.
              vec ! i = (if i < k \<and> hasTensor (pBindings ! i)
                         then (pBindings ! i)\<lparr>descriptorType := VK_DESCRIPTOR_TYPE_UNIFORM_BUFFER\<rparr>
                         else pBindings ! i)"
    and m: "mem' = (case bindingInfo of
                     None \<Rightarrow> mem
                   | Some info \<Rightarrow>
                       (\<lambda>a. if \<exists>i<k. hasTensor (pBindings ! i) \<and> a = pBindingFlags info + i
                            then mem a AND NOT VK_DESCRIPTOR_BINDING_UPDATE_AFTER_BIND_BIT
                            else mem a))"
    by (auto simp: Suc_le_eq)
  have step: "fold (substituteTensorBinding_body cfg pBindings bindingInfo) [0..<Suc k] (pBindings, mem)
          = substituteTensorBinding_body cfg pBindings bindingInfo k (vec, mem')"
    using f by simp
  have tk: "take (Suc k) pBindings = take k pBindings @ [pBindings ! k]"
    using k by (rule take_Suc_conv_app_nth)
  have vk: "k < length vec" using k len by simp
  show ?case
  proof (cases "hasTensor (pBindings ! k)")
    case False
    then have "substituteTensorBinding_body cfg pBindings bindingInfo k (vec, mem') = (vec, mem')"
      by (simp add: substituteTensorBinding_body_def)
    moreover have "(\<exists>i<Suc k. hasTensor (pBindings ! i) \<and> a = p + i)
                     \<longleftrightarrow> (\<exists>i<k. hasTensor (pBindings ! i) \<and> a = p + i)" for a p :: nat
      using False by (auto simp: less_Suc_eq)
    ultimately show ?thesis
      using step len el m False tk
      by (auto simp: less_Suc_eq split: option.splits)
  next
    case True
    have mem_eq: "(case bindingInfo of
                None \<Rightarrow> mem'
              | Some info \<Rightarrow>
                  mem' (pBindingFlags info + k :=
                    mem' (pBindingFlags info + k)
                      AND NOT VK_DESCRIPTOR_BINDING_UPDATE_AFTER_BIND_BIT))
          = (case bindingInfo of
                     None \<Rightarrow> mem
                   | Some info \<Rightarrow>
                       (\<lambda>a. if \<exists>i<Suc k. hasTensor (pBindings ! i) \<and> a = pBindingFlags info + i
                            then mem a AND NOT VK_DESCRIPTOR_BINDING_UPDATE_AFTER_BIND_BIT
                            else mem a))"
    proof (cases bindingInfo)
      case None
      with m show ?thesis by simp
    next
      case (Some info)
      have "\<not> (\<exists>i<k. hasTensor (pBindings ! i) \<and> pBindingFlags info + k = pBindingFlags info + i)"
        by simp
      with m Some True show ?thesis
        by (auto simp: fun_eq_iff less_Suc_eq)
    qed
    have vec_k: "vec ! k = pBindings ! k"
      using el k by simp
    show ?thesis
    proof (cases "EXPERIMENTAL_MOLTEN_VK_SUPPORT cfg")
      case False
      with True have "substituteTensorBinding_body cfg pBindings bindingInfo k (vec, mem')
        = (vec[k := (pBindings ! k)\<lparr>descriptorType := VK_DESCRIPTOR_TYPE_UNIFORM_BUFFER\<rparr>],
           case bindingInfo of
                None \<Rightarrow> mem'
              | Some info \<Rightarrow>
                  mem' (pBindingFlags info + k :=
                    mem' (pBindingFlags info + k)
                      AND NOT VK_DESCRIPTOR_BINDING_UPDATE_AFTER_BIND_BIT))"
        by (simp add: substituteTensorBinding_body_def Let_def vec_k)
      with step mem_eq len el False vk True show ?thesis
        by (auto simp: nth_list_update less_Suc_eq)
    next
      case exp: True
      with True have "substituteTensorBinding_body cfg pBindings bindingInfo k (vec, mem')
        = (vec[k := (pBindings ! k)\<lparr>descriptorType := VK_DESCRIPTOR_TYPE_UNIFORM_BUFFER\<rparr>] @
             [\<lparr>binding = binding (pBindings ! k) + EXPERIMENTAL_MVK_BUFFER_BINDING_OFFSET cfg,
               descriptorType = VK_DESCRIPTOR_TYPE_STORAGE_BUFFER,
               descriptorCount = descriptorCount (pBindings ! k),
               stageFlags = stageFlags (pBindings ! k),
               pImmutableSamplers = nullptr\<rparr>],
           case bindingInfo of
                None \<Rightarrow> mem'
              | Some info \<Rightarrow>
                  mem' (pBindingFlags info + k :=
                    mem' (pBindingFlags info + k)
                      AND NOT VK_DESCRIPTOR_BINDING_UPDATE_AFTER_BIND_BIT))"
        by (simp add: substituteTensorBinding_body_def Let_def vec_k)
      with step mem_eq len el exp vk True tk show ?thesis
        by (auto simp: nth_list_update nth_append less_Suc_eq)
    qed
  qed
qed

lemma substituteTensorBinding_eq:
  "\<exists>vec mem'.
     substituteTensorBinding cfg mem pBindings bindingInfo = (vec, mem') \<and>
     length vec = length pBindings +
       (if EXPERIMENTAL_MOLTEN_VK_SUPPORT cfg
        then length (filter hasTensor pBindings) else 0) \<and>
     (\<forall>i<length pBindings.
        vec ! i = (if hasTensor (pBindings ! i)
                   then (pBindings ! i)\<lparr>descriptorType := VK_DESCRIPTOR_TYPE_UNIFORM_BUFFER\<rparr>
                   else pBindings ! i)) \<and>
     mem' = (case bindingInfo of
               None \<Rightarrow> mem
             | Some info \<Rightarrow>
                 (\<lambda>a. if \<exists>i<length pBindings.
                            hasTensor (pBindings ! i) \<and> a = pBindingFlags info + i
                      then mem a AND NOT VK_DESCRIPTOR_BINDING_UPDATE_AFTER_BIND_BIT
                      else mem a))"
proof -
  from substituteTensorBinding_loop [of "length pBindings" pBindings cfg bindingInfo mem]
  obtain vec mem' where
    "fold (substituteTensorBinding_body cfg pBindings bindingInfo) [0..<length pBindings]
       (pBindings, mem) = (vec, mem')"
    "length vec = length pBindings +
       (if EXPERIMENTAL_MOLTEN_VK_SUPPORT cfg
        then length (filter hasTensor (take (length pBindings) pBindings)) else 0)"
    "\<forall>i<length pBindings.
        vec ! i = (if i < length pBindings \<and> hasTensor (pBindings ! i)
                   then (pBindings ! i)\<lparr>descriptorType := VK_DESCRIPTOR_TYPE_UNIFORM_BUFFER\<rparr>
                   else pBindings ! i)"
    "mem' = (case bindingInfo of
               None \<Rightarrow> mem
             | Some info \<Rightarrow>
                 (\<lambda>a. if \<exists>i<length pBindings.
                            hasTensor (pBindings ! i) \<and> a = pBindingFlags info + i
                      then mem a AND NOT VK_DESCRIPTOR_BINDING_UPDATE_AFTER_BIND_BIT
                      else mem a))"
    by blast
  then show ?thesis
    unfolding substituteTensorBinding_def by (intro exI [of _ vec] exI [of _ mem']) simp
qed

text \<open>
  Claim C3. In the list that \<open>substituteTensorBinding\<close> returns, every tensor binding
  of the input is, at its own index, a uniform-buffer binding with the same binding
  number, descriptor count, stage flags and samplers, and every other binding of the
  input stands unchanged at its own index; bindings of the experimental build come
  after these. When the flags structure is given, the update-after-bind bit is cleared
  in the flag word of every tensor index, and the flag word of every other index is as
  it was.
\<close>

theorem substituteTensorBinding_bindings_and_flags:
  assumes "substituteTensorBinding cfg mem pBindings bindingInfo = (vec, mem')"
  shows "length pBindings \<le> length vec \<and>
         (\<not> EXPERIMENTAL_MOLTEN_VK_SUPPORT cfg \<longrightarrow> length vec = length pBindings) \<and>
         (\<forall>i<length pBindings.
            (hasTensor (pBindings ! i) \<longrightarrow>
               descriptorType (vec ! i) = VK_DESCRIPTOR_TYPE_UNIFORM_BUFFER \<and>
               binding (vec ! i) = binding (pBindings ! i) \<and>
               descriptorCount (vec ! i) = descriptorCount (pBindings ! i) \<and>
               stageFlags (vec ! i) = stageFlags (pBindings ! i) \<and>
               pImmutableSamplers (vec ! i) = pImmutableSamplers (pBindings ! i)) \<and>
            (\<not> hasTensor (pBindings ! i) \<longrightarrow> vec ! i = pBindings ! i)) \<and>
         (\<forall>info. bindingInfo = Some info \<longrightarrow>
            (\<forall>i. mem' (pBindingFlags info + i) =
                   (if i < length pBindings \<and> hasTensor (pBindings ! i)
                    then mem (pBindingFlags info + i)
                           AND NOT VK_DESCRIPTOR_BINDING_UPDATE_AFTER_BIND_BIT
                    else mem (pBindingFlags info + i))))"
  using substituteTensorBinding_eq [of cfg mem pBindings bindingInfo] assms
  by auto

text \<open>
  Claim C10. With the flags structure given, the call changes the memory of the caller's
  flags array in place: after the call the words at the tensor indices of the array at
  \<open>pBindingFlags\<close> have the update-after-bind bit cleared and every other word of the
  memory is as before. The returned vector holds no flags: it is the vector that the
  call returns without the flags structure, on any memory. Without the structure the
  memory is left as it is.
\<close>

theorem substituteTensorBinding_writes_caller_flags:
  "snd (substituteTensorBinding cfg mem pBindings (Some info)) =
     (\<lambda>a. if a \<in> (\<lambda>i. pBindingFlags info + i) `
                   {i. i < length pBindings \<and> hasTensor (pBindings ! i)}
          then mem a AND NOT VK_DESCRIPTOR_BINDING_UPDATE_AFTER_BIND_BIT
          else mem a) \<and>
   fst (substituteTensorBinding cfg mem pBindings (Some info)) =
     fst (substituteTensorBinding cfg other_mem pBindings None) \<and>
   snd (substituteTensorBinding cfg other_mem pBindings None) = other_mem"
proof -
  obtain vec mem' where a:
    "substituteTensorBinding cfg mem pBindings (Some info) = (vec, mem')"
    "length vec = length pBindings +
       (if EXPERIMENTAL_MOLTEN_VK_SUPPORT cfg
        then length (filter hasTensor pBindings) else 0)"
    "\<forall>i<length pBindings.
        vec ! i = (if hasTensor (pBindings ! i)
                   then (pBindings ! i)\<lparr>descriptorType := VK_DESCRIPTOR_TYPE_UNIFORM_BUFFER\<rparr>
                   else pBindings ! i)"
    "mem' = (\<lambda>a. if \<exists>i<length pBindings.
                            hasTensor (pBindings ! i) \<and> a = pBindingFlags info + i
                      then mem a AND NOT VK_DESCRIPTOR_BINDING_UPDATE_AFTER_BIND_BIT
                      else mem a)"
    using substituteTensorBinding_eq [of cfg mem pBindings "Some info"] by auto
  have vec_indep: "fst (fold (substituteTensorBinding_body cfg pBindings (Some info)) ks (v, m))
      = fst (fold (substituteTensorBinding_body cfg pBindings None) ks (v, m'))"
    for ks v m m'
    by (induction ks arbitrary: v m m') (simp_all add: substituteTensorBinding_body_def Let_def)
  obtain vec2 mem2 where b:
    "substituteTensorBinding cfg other_mem pBindings None = (vec2, mem2)" "mem2 = other_mem"
    using substituteTensorBinding_eq [of cfg other_mem pBindings None] by auto
  have "(\<lambda>a. if \<exists>i<length pBindings. hasTensor (pBindings ! i) \<and> a = pBindingFlags info + i
            then mem a AND NOT VK_DESCRIPTOR_BINDING_UPDATE_AFTER_BIND_BIT else mem a)
      = (\<lambda>a. if a \<in> (\<lambda>i. pBindingFlags info + i) `
                   {i. i < length pBindings \<and> hasTensor (pBindings ! i)}
          then mem a AND NOT VK_DESCRIPTOR_BINDING_UPDATE_AFTER_BIND_BIT
          else mem a)"
    by (auto simp: fun_eq_iff)
  with a b vec_indep [of "[0..<length pBindings]" pBindings mem other_mem] show ?thesis
    by (simp add: substituteTensorBinding_def)
qed

text \<open>
  The example of the specification: four bindings, the tensor binding at index 2, and
  the update-after-bind bit set in every flag word.
\<close>

theorem substituteTensorBinding_bindings_and_flags_witness:
  "length (fst (substituteTensorBinding default_build all_flags_3 four_bindings
                  (Some flags_at_100))) = 4 \<and>
   fst (substituteTensorBinding default_build all_flags_3 four_bindings
          (Some flags_at_100)) ! 2 = layout_binding 2 VK_DESCRIPTOR_TYPE_UNIFORM_BUFFER \<and>
   fst (substituteTensorBinding default_build all_flags_3 four_bindings
          (Some flags_at_100)) ! 1 = layout_binding 1 VK_DESCRIPTOR_TYPE_UNIFORM_BUFFER \<and>
   snd (substituteTensorBinding default_build all_flags_3 four_bindings
          (Some flags_at_100)) 102 = 2 \<and>
   snd (substituteTensorBinding default_build all_flags_3 four_bindings
          (Some flags_at_100)) 103 = 3"
proof -
  let ?X = "substituteTensorBinding default_build all_flags_3 four_bindings (Some flags_at_100)"
  have h: "?X = (fst ?X, snd ?X)"
    by simp
  note t = substituteTensorBinding_bindings_and_flags [OF h]
  have n: "length four_bindings = 4"
    by (simp add: four_bindings_def)
  have t2: "hasTensor (four_bindings ! 2)" "four_bindings ! 2 = layout_binding 2 VK_DESCRIPTOR_TYPE_TENSOR_ARM"
    by (simp_all add: four_bindings_def hasTensor_def layout_binding_def)
  have t1: "\<not> hasTensor (four_bindings ! 1)" "four_bindings ! 1 = layout_binding 1 VK_DESCRIPTOR_TYPE_UNIFORM_BUFFER"
    by (simp_all add: four_bindings_def hasTensor_def layout_binding_def)
  have t3: "\<not> hasTensor (four_bindings ! 3)"
    by (simp add: four_bindings_def hasTensor_def layout_binding_def numeral_3_eq_3)
  from t have len: "length (fst ?X) = 4"
    by (simp add: default_build_def n)
  from t have el: "\<forall>i<4.
            (hasTensor (four_bindings ! i) \<longrightarrow>
               descriptorType (fst ?X ! i) = VK_DESCRIPTOR_TYPE_UNIFORM_BUFFER \<and>
               binding (fst ?X ! i) = binding (four_bindings ! i) \<and>
               descriptorCount (fst ?X ! i) = descriptorCount (four_bindings ! i) \<and>
               stageFlags (fst ?X ! i) = stageFlags (four_bindings ! i) \<and>
               pImmutableSamplers (fst ?X ! i) = pImmutableSamplers (four_bindings ! i)) \<and>
            (\<not> hasTensor (four_bindings ! i) \<longrightarrow> fst ?X ! i = four_bindings ! i)"
    unfolding n by blast
  from el t2 have e2: "fst ?X ! 2 = layout_binding 2 VK_DESCRIPTOR_TYPE_UNIFORM_BUFFER"
    by (simp add: layout_binding_def)
  from el t1 have e1: "fst ?X ! 1 = layout_binding 1 VK_DESCRIPTOR_TYPE_UNIFORM_BUFFER"
    by simp
  from t have fl: "\<forall>i. snd ?X (100 + i) =
                   (if i < 4 \<and> hasTensor (four_bindings ! i)
                    then all_flags_3 (100 + i)
                           AND NOT VK_DESCRIPTOR_BINDING_UPDATE_AFTER_BIND_BIT
                    else all_flags_3 (100 + i))"
    by (simp add: flags_at_100_def n)
  from fl [rule_format, of 2] t2 have f2: "snd ?X 102 = 2"
    by (simp add: all_flags_3_def VK_DESCRIPTOR_BINDING_UPDATE_AFTER_BIND_BIT_def)
  from fl [rule_format, of 3] t3 have f3: "snd ?X 103 = 3"
    by (simp add: all_flags_3_def)
  from len e2 e1 f2 f3 show ?thesis
    by (intro conjI)
qed


subsection \<open>Tensor writes\<close>

text \<open>One round of the inner loop, in each build.\<close>

lemma tensor_view_body_default:
  "\<not> EXPERIMENTAL_MOLTEN_VK_SUPPORT cfg \<Longrightarrow>
   tensor_view_body cfg tv dev write vs j (W, B) =
     (W @ [uniform_buffer_write write j (length B)],
      B @ [whole_buffer (getDescriptorBuffer tv dev (vs ! j))])"
  by (simp add: tensor_view_body_def Let_def uniform_buffer_write_def whole_buffer_def)

lemma tensor_view_body_experimental:
  "EXPERIMENTAL_MOLTEN_VK_SUPPORT cfg \<Longrightarrow>
   tensor_view_body cfg tv dev write vs j (W, B) =
     (W @ [uniform_buffer_write write j (length B),
           storage_buffer_write cfg write j (Suc (length B))],
      B @ [whole_buffer (getDescriptorBuffer tv dev (vs ! j)),
           whole_buffer (getTensorBuffer tv (vs ! j))])"
  by (simp add: tensor_view_body_def Let_def uniform_buffer_write_def
      storage_buffer_write_def whole_buffer_def)

text \<open>The state of the inner loop after the views below \<open>n\<close>, in each build.\<close>

lemma tensor_loop_default:
  assumes "\<not> EXPERIMENTAL_MOLTEN_VK_SUPPORT cfg"
  shows "\<exists>W1 B1.
     fold (tensor_view_body cfg tv dev write vs) [0..<n] (W, B) = (W @ W1, B @ B1) \<and>
     length W1 = n \<and> length B1 = n \<and>
     length (filter is_uniform_buffer_write W1) = n \<and>
     length (filter is_storage_buffer_write W1) = 0 \<and>
     map pBufferInfo W1 = map BufferInfoNode [length B..<length B + n] \<and>
     (\<forall>j<n. W1 ! j = uniform_buffer_write write j (length B + j) \<and>
             B1 ! j = whole_buffer (getDescriptorBuffer tv dev (vs ! j)))"
proof (induction n)
  case 0
  show ?case by simp
next
  case (Suc n)
  then obtain W1 B1 where ih:
    "fold (tensor_view_body cfg tv dev write vs) [0..<n] (W, B) = (W @ W1, B @ B1)"
    "length W1 = n" "length B1 = n"
    "length (filter is_uniform_buffer_write W1) = n"
    "length (filter is_storage_buffer_write W1) = 0"
    "map pBufferInfo W1 = map BufferInfoNode [length B..<length B + n]"
    "\<forall>j<n. W1 ! j = uniform_buffer_write write j (length B + j) \<and>
             B1 ! j = whole_buffer (getDescriptorBuffer tv dev (vs ! j))"
    by blast
  let ?W = "W1 @ [uniform_buffer_write write n (length B + n)]"
  let ?B = "B1 @ [whole_buffer (getDescriptorBuffer tv dev (vs ! n))]"
  have "fold (tensor_view_body cfg tv dev write vs) [0..<Suc n] (W, B) = (W @ ?W, B @ ?B)"
    using ih(1,3) assms by (simp add: tensor_view_body_default)
  moreover have "length ?W = Suc n" "length ?B = Suc n"
    using ih by simp_all
  moreover have "length (filter is_uniform_buffer_write ?W) = Suc n"
    using ih by (simp add: is_uniform_buffer_write_def uniform_buffer_write_def)
  moreover have "length (filter is_storage_buffer_write ?W) = 0"
    using ih by (simp add: is_storage_buffer_write_def uniform_buffer_write_def)
  moreover have "map pBufferInfo ?W = map BufferInfoNode [length B..<length B + Suc n]"
    using ih by (simp add: uniform_buffer_write_def)
  moreover have "\<forall>j<Suc n. ?W ! j = uniform_buffer_write write j (length B + j) \<and>
             ?B ! j = whole_buffer (getDescriptorBuffer tv dev (vs ! j))"
    using ih by (auto simp: nth_append less_Suc_eq)
  ultimately show ?case by blast
qed

lemma tensor_loop_experimental:
  assumes "EXPERIMENTAL_MOLTEN_VK_SUPPORT cfg"
  shows "\<exists>W1 B1.
     fold (tensor_view_body cfg tv dev write vs) [0..<n] (W, B) = (W @ W1, B @ B1) \<and>
     length W1 = 2 * n \<and> length B1 = 2 * n \<and>
     length (filter is_uniform_buffer_write W1) = n \<and>
     length (filter is_storage_buffer_write W1) = n \<and>
     map pBufferInfo W1 = map BufferInfoNode [length B..<length B + 2 * n] \<and>
     (\<forall>j<n. W1 ! (2 * j) = uniform_buffer_write write j (length B + 2 * j) \<and>
             B1 ! (2 * j) = whole_buffer (getDescriptorBuffer tv dev (vs ! j)) \<and>
             W1 ! (2 * j + 1) = storage_buffer_write cfg write j (length B + 2 * j + 1) \<and>
             B1 ! (2 * j + 1) = whole_buffer (getTensorBuffer tv (vs ! j)))"
proof (induction n)
  case 0
  show ?case by simp
next
  case (Suc n)
  then obtain W1 B1 where ih:
    "fold (tensor_view_body cfg tv dev write vs) [0..<n] (W, B) = (W @ W1, B @ B1)"
    "length W1 = 2 * n" "length B1 = 2 * n"
    "length (filter is_uniform_buffer_write W1) = n"
    "length (filter is_storage_buffer_write W1) = n"
    "map pBufferInfo W1 = map BufferInfoNode [length B..<length B + 2 * n]"
    "\<forall>j<n. W1 ! (2 * j) = uniform_buffer_write write j (length B + 2 * j) \<and>
             B1 ! (2 * j) = whole_buffer (getDescriptorBuffer tv dev (vs ! j)) \<and>
             W1 ! (2 * j + 1) = storage_buffer_write cfg write j (length B + 2 * j + 1) \<and>
             B1 ! (2 * j + 1) = whole_buffer (getTensorBuffer tv (vs ! j))"
    by blast
  let ?W = "W1 @ [uniform_buffer_write write n (length B + 2 * n),
                  storage_buffer_write cfg write n (length B + 2 * n + 1)]"
  let ?B = "B1 @ [whole_buffer (getDescriptorBuffer tv dev (vs ! n)),
                  whole_buffer (getTensorBuffer tv (vs ! n))]"
  have "fold (tensor_view_body cfg tv dev write vs) [0..<Suc n] (W, B) = (W @ ?W, B @ ?B)"
    using ih(1,3) assms by (simp add: tensor_view_body_experimental)
  moreover have "length ?W = 2 * Suc n" "length ?B = 2 * Suc n"
    using ih by simp_all
  moreover have "length (filter is_uniform_buffer_write ?W) = Suc n"
    using ih by (simp add: is_uniform_buffer_write_def uniform_buffer_write_def
        storage_buffer_write_def)
  moreover have "length (filter is_storage_buffer_write ?W) = Suc n"
    using ih by (simp add: is_storage_buffer_write_def uniform_buffer_write_def
        storage_buffer_write_def)
  moreover have "map pBufferInfo ?W = map BufferInfoNode [length B..<length B + 2 * Suc n]"
  proof -
    have "[length B..<length B + 2 * Suc n]
            = [length B..<length B + 2 * n] @ [length B + 2 * n, length B + 2 * n + 1]"
      by (simp add: upt_rec [of "length B + 2 * n"] upt_add_eq_append [of "length B" "length B + 2 * n" 2, simplified])
    with ih(6) show ?thesis
      by (simp add: uniform_buffer_write_def storage_buffer_write_def)
  qed
  moreover have "\<forall>j<Suc n. ?W ! (2 * j) = uniform_buffer_write write j (length B + 2 * j) \<and>
             ?B ! (2 * j) = whole_buffer (getDescriptorBuffer tv dev (vs ! j)) \<and>
             ?W ! (2 * j + 1) = storage_buffer_write cfg write j (length B + 2 * j + 1) \<and>
             ?B ! (2 * j + 1) = whole_buffer (getTensorBuffer tv (vs ! j))"
  proof (intro allI impI)
    fix j assume "j < Suc n"
    then consider "j < n" | "j = n" by linarith
    then show "?W ! (2 * j) = uniform_buffer_write write j (length B + 2 * j) \<and>
             ?B ! (2 * j) = whole_buffer (getDescriptorBuffer tv dev (vs ! j)) \<and>
             ?W ! (2 * j + 1) = storage_buffer_write cfg write j (length B + 2 * j + 1) \<and>
             ?B ! (2 * j + 1) = whole_buffer (getTensorBuffer tv (vs ! j))"
    proof cases
      case 1
      then have "2 * j < 2 * n" "2 * j + 1 < 2 * n" by simp_all
      with ih(2,3,7) 1 show ?thesis by (simp add: nth_append)
    next
      case 2
      with ih(2,3) show ?thesis by (simp add: nth_append)
    qed
  qed
  ultimately show ?case by blast
qed

lemma substituteWrites_append:
  "substituteWrites cfg tv image_mem dev (xs @ ys) st =
     (case substituteWrites cfg tv image_mem dev xs st of
        Inl e \<Rightarrow> Inl e
      | Inr st' \<Rightarrow> substituteWrites cfg tv image_mem dev ys st')"
  by (induction xs arbitrary: st) (simp_all split: sum.splits)

text \<open>
  What the loop does with one non-tensor write whose first image info has the
  tensor-aliasing layout: the write is copied with \<open>pImageInfo\<close> set to a new node,
  which holds the sampler and the image view of that first image info and the general
  layout. The descriptor count is copied as it is.
\<close>

lemma substituteWrite_aliasing_image:
  assumes "\<not> hasTensor_write write" and "pImageInfo write \<noteq> nullptr"
    and "imageLayout (image_mem (pImageInfo write)) = VK_IMAGE_LAYOUT_TENSOR_ALIASING_ARM"
  shows "substituteWrite cfg tv image_mem dev write (writes, bufferInfos, imageInfos) =
           Inr (writes @ [write\<lparr>pImageInfo := ImageInfoNode (length imageInfos)\<rparr>],
                bufferInfos,
                imageInfos @
                  [\<lparr>sampler = sampler (image_mem (pImageInfo write)),
                    imageView = imageView (image_mem (pImageInfo write)),
                    imageLayout = VK_IMAGE_LAYOUT_GENERAL\<rparr>])"
  using assms by (simp add: substituteWrite_def Let_def)

lemma substituteWrite_tensor:
  assumes "hasTensor_write write" and "findType (pNext write) = Some vs"
    and "fold (tensor_view_body cfg tv dev write vs) [0..<length vs] (W, B) = (W', B')"
  shows "substituteWrite cfg tv image_mem dev write (W, B, I) = Inr (W', B', I)"
  using assms by (simp add: substituteWrite_def)

text \<open>
  Claim C4. Let a call hold a tensor write with \<open>N\<close> attached tensor views, and let the
  writes before it rewrite to \<open>writes\<close>, \<open>bufferInfos\<close> and \<open>imageInfos\<close>. Then the call
  goes on with the writes after it from the state in which \<open>emitted\<close> is appended to
  \<open>writes\<close> and \<open>infos\<close> to \<open>bufferInfos\<close>, where \<open>emitted\<close> holds exactly \<open>N\<close>
  uniform-buffer writes and, in the experimental build only, \<open>N\<close> storage-buffer writes
  besides; every emitted write points to a buffer-info node of its own among the new
  ones; and the uniform-buffer write of view \<open>j\<close> has the destination set and binding of
  the tensor write, the array element \<open>dstArrayElement + j\<close> and the descriptor count 1,
  its node holding the descriptor buffer of view \<open>j\<close> at offset 0 with the whole size.
\<close>

theorem substituteTensorWriteDescriptorSet_tensor_views:
  assumes "hasTensor_write write"
    and "findType (pNext write) = Some pTensorViews"
    and "substituteTensorWriteDescriptorSet cfg tv image_mem dev earlier
           = Inr (writes, bufferInfos, imageInfos)"
  shows "\<exists>emitted infos.
     substituteTensorWriteDescriptorSet cfg tv image_mem dev (earlier @ write # later)
       = substituteWrites cfg tv image_mem dev later
           (writes @ emitted, bufferInfos @ infos, imageInfos) \<and>
     length emitted = writes_per_view cfg * length pTensorViews \<and>
     length infos = length emitted \<and>
     length (filter is_uniform_buffer_write emitted) = length pTensorViews \<and>
     length (filter is_storage_buffer_write emitted)
       = (if EXPERIMENTAL_MOLTEN_VK_SUPPORT cfg then length pTensorViews else 0) \<and>
     map pBufferInfo emitted
       = map BufferInfoNode [length bufferInfos..<length bufferInfos + length emitted] \<and>
     (\<forall>j<length pTensorViews.
        emitted ! (writes_per_view cfg * j)
          = uniform_buffer_write write j (length bufferInfos + writes_per_view cfg * j) \<and>
        infos ! (writes_per_view cfg * j)
          = whole_buffer (getDescriptorBuffer tv dev (pTensorViews ! j)))"
proof -
  have call: "substituteTensorWriteDescriptorSet cfg tv image_mem dev (earlier @ write # later)
      = (case substituteWrite cfg tv image_mem dev write (writes, bufferInfos, imageInfos) of
           Inl e \<Rightarrow> Inl e
         | Inr st' \<Rightarrow> substituteWrites cfg tv image_mem dev later st')"
    using assms(3)
    by (simp add: substituteTensorWriteDescriptorSet_def substituteWrites_append)
  show ?thesis
  proof (cases "EXPERIMENTAL_MOLTEN_VK_SUPPORT cfg")
    case False
    from tensor_loop_default [OF False, of tv dev "write" pTensorViews "length pTensorViews"
        writes bufferInfos]
    obtain W1 B1 where l:
      "fold (tensor_view_body cfg tv dev write pTensorViews) [0..<length pTensorViews]
         (writes, bufferInfos) = (writes @ W1, bufferInfos @ B1)"
      "length W1 = length pTensorViews" "length B1 = length pTensorViews"
      "length (filter is_uniform_buffer_write W1) = length pTensorViews"
      "length (filter is_storage_buffer_write W1) = 0"
      "map pBufferInfo W1
         = map BufferInfoNode [length bufferInfos..<length bufferInfos + length pTensorViews]"
      "\<forall>j<length pTensorViews.
         W1 ! j = uniform_buffer_write write j (length bufferInfos + j) \<and>
         B1 ! j = whole_buffer (getDescriptorBuffer tv dev (pTensorViews ! j))"
      by blast
    from call substituteWrite_tensor [OF assms(1,2) l(1)]
    have "substituteTensorWriteDescriptorSet cfg tv image_mem dev (earlier @ write # later)
       = substituteWrites cfg tv image_mem dev later
           (writes @ W1, bufferInfos @ B1, imageInfos)"
      by simp
    with l False show ?thesis
      by (intro exI [of _ W1] exI [of _ B1]) (simp add: writes_per_view_def)
  next
    case True
    from tensor_loop_experimental [OF True, of tv dev "write" pTensorViews
        "length pTensorViews" writes bufferInfos]
    obtain W1 B1 where l:
      "fold (tensor_view_body cfg tv dev write pTensorViews) [0..<length pTensorViews]
         (writes, bufferInfos) = (writes @ W1, bufferInfos @ B1)"
      "length W1 = 2 * length pTensorViews" "length B1 = 2 * length pTensorViews"
      "length (filter is_uniform_buffer_write W1) = length pTensorViews"
      "length (filter is_storage_buffer_write W1) = length pTensorViews"
      "map pBufferInfo W1
         = map BufferInfoNode [length bufferInfos..<length bufferInfos + 2 * length pTensorViews]"
      "\<forall>j<length pTensorViews.
         W1 ! (2 * j) = uniform_buffer_write write j (length bufferInfos + 2 * j) \<and>
         B1 ! (2 * j) = whole_buffer (getDescriptorBuffer tv dev (pTensorViews ! j)) \<and>
         W1 ! (2 * j + 1) = storage_buffer_write cfg write j (length bufferInfos + 2 * j + 1) \<and>
         B1 ! (2 * j + 1) = whole_buffer (getTensorBuffer tv (pTensorViews ! j))"
      by blast
    from call substituteWrite_tensor [OF assms(1,2) l(1)]
    have "substituteTensorWriteDescriptorSet cfg tv image_mem dev (earlier @ write # later)
       = substituteWrites cfg tv image_mem dev later
           (writes @ W1, bufferInfos @ B1, imageInfos)"
      by simp
    with l True show ?thesis
      by (intro exI [of _ W1] exI [of _ B1]) (simp add: writes_per_view_def)
  qed
qed

lemma list_of_length_2: "length xs = 2 \<Longrightarrow> xs = [xs ! 0, xs ! 1]"
  by (cases xs; cases "tl xs") auto

text \<open>A call of an image write and then a tensor write with the views 20 and 30.\<close>

theorem substituteTensorWriteDescriptorSet_tensor_views_witness:
  "substituteTensorWriteDescriptorSet default_build sample_views aliasing_images 7
     [image_array_write, two_view_write]
   = Inr ([image_array_write\<lparr>pImageInfo := ImageInfoNode 0\<rparr>,
           uniform_buffer_write two_view_write 0 0,
           uniform_buffer_write two_view_write 1 1],
          [whole_buffer 27, whole_buffer 37],
          [\<lparr>sampler = 0, imageView = 100, imageLayout = VK_IMAGE_LAYOUT_GENERAL\<rparr>])"
proof -
  have e: "substituteTensorWriteDescriptorSet default_build sample_views aliasing_images 7
             [image_array_write]
           = Inr ([image_array_write\<lparr>pImageInfo := ImageInfoNode 0\<rparr>], [],
                  [\<lparr>sampler = 0, imageView = 100, imageLayout = VK_IMAGE_LAYOUT_GENERAL\<rparr>])"
    by (simp add: substituteTensorWriteDescriptorSet_def substituteWrite_def Let_def
        image_array_write_def sample_write_def hasTensor_write_def aliasing_images_def)
  have t: "hasTensor_write two_view_write"
    by (simp add: hasTensor_write_def two_view_write_def sample_write_def)
  have f: "findType (pNext two_view_write) = Some [20, 30]"
    by (simp add: two_view_write_def sample_write_def)
  have k: "writes_per_view default_build = 1"
    by (simp add: writes_per_view_def default_build_def)
  from substituteTensorWriteDescriptorSet_tensor_views [OF t f e, of "[]"]
  obtain emitted infos where
    r: "substituteTensorWriteDescriptorSet default_build sample_views aliasing_images 7
          ([image_array_write] @ [two_view_write])
        = Inr ([image_array_write\<lparr>pImageInfo := ImageInfoNode 0\<rparr>] @ emitted, [] @ infos,
               [\<lparr>sampler = 0, imageView = 100, imageLayout = VK_IMAGE_LAYOUT_GENERAL\<rparr>])"
    and len: "length emitted = 2" "length infos = 2"
    and el: "\<forall>j<2. emitted ! j = uniform_buffer_write two_view_write j j \<and>
                    infos ! j = whole_buffer (getDescriptorBuffer sample_views 7 ([20, 30] ! j))"
    unfolding k by auto
  from el have "emitted ! 0 = uniform_buffer_write two_view_write 0 0"
    "emitted ! 1 = uniform_buffer_write two_view_write 1 1"
    "infos ! 0 = whole_buffer 27" "infos ! 1 = whole_buffer 37"
    by (simp_all add: sample_views_def)
  with list_of_length_2 [OF len(1)] list_of_length_2 [OF len(2)]
  have "emitted = [uniform_buffer_write two_view_write 0 0, uniform_buffer_write two_view_write 1 1]"
    "infos = [whole_buffer 27, whole_buffer 37]"
    by simp_all
  with r show ?thesis by simp
qed

text \<open>
  Claim C9 fails on the code for a write of more than one descriptor. For the
  storage-image write of two descriptors, both image infos with the tensor-aliasing
  layout, the emitted write still announces two descriptors, but its \<open>pImageInfo\<close> is a
  list node holding the one record made from the first image info: the second element
  of the original array (image view 101) has no counterpart behind the emitted pointer.
\<close>

theorem substituteTensorWriteDescriptorSet_image_array:
  "substituteTensorWriteDescriptorSet default_build sample_views aliasing_images 7
     [image_array_write]
   = Inr ([image_array_write\<lparr>pImageInfo := ImageInfoNode 0\<rparr>], [],
          [\<lparr>sampler = 0, imageView = 100, imageLayout = VK_IMAGE_LAYOUT_GENERAL\<rparr>]) \<and>
   write_descriptorCount (image_array_write\<lparr>pImageInfo := ImageInfoNode 0\<rparr>) = 2 \<and>
   designated_image_info aliasing_images [] (pImageInfo image_array_write) 1
     = Some \<lparr>sampler = 0, imageView = 101,
             imageLayout = VK_IMAGE_LAYOUT_TENSOR_ALIASING_ARM\<rparr> \<and>
   designated_image_info aliasing_images
     [\<lparr>sampler = 0, imageView = 100, imageLayout = VK_IMAGE_LAYOUT_GENERAL\<rparr>]
     (ImageInfoNode 0) 0
     = Some \<lparr>sampler = 0, imageView = 100, imageLayout = VK_IMAGE_LAYOUT_GENERAL\<rparr> \<and>
   designated_image_info aliasing_images
     [\<lparr>sampler = 0, imageView = 100, imageLayout = VK_IMAGE_LAYOUT_GENERAL\<rparr>]
     (ImageInfoNode 0) 1
     = None"
  by (simp add: substituteTensorWriteDescriptorSet_def substituteWrite_def Let_def
      image_array_write_def sample_write_def hasTensor_write_def aliasing_images_def)

end
